theory Spec2Isabelle
  imports Main
begin

section \<open>Python values and exceptions\<close>

text \<open>
  A Python \<open>float\<close> is a double: a finite one is a sign, a mantissa below two to the
  53 and a binary exponent (zero has mantissa and exponent 0); the others are the two
  infinities and the one not-a-number.
\<close>

datatype pyfloat = FNum bool int int | FInf bool | FNaN

text \<open>
  The values that flow through the engine: module outputs, the elements of a tick array,
  the \<open>position\<close> argument of \<open>register\<close> and the values of settings. They are the
  Python values that \<open>json.loads\<close> produces and \<open>json.dumps\<close> accepts. A \<open>dict\<close> is
  an association list in insertion order with string keys.
\<close>

datatype pyval =
    VNone
  | VBool bool
  | VInt int
  | VFloat pyfloat
  | VStr string
  | VList "pyval list"
  | VDict "(string \<times> pyval) list"

text \<open>
  A class object, as far as \<open>issubclass\<close> looks at it: its name and its direct bases.
\<close>

datatype pyclass = PyClass (cls_name: string) (cls_bases: "pyclass list")

text \<open>
  The exceptions of the program. \<open>ConfigurationError\<close> carries the arguments of its
  constructor (source lines 11-23), from which the message is formatted: the module name,
  \<open>key\<close>, \<open>missing\<close>, \<open>ambigious_classes\<close> and \<open>invalid\<close>. \<open>Unmodelled\<close> is no
  exception of Python: it is the result on an input for which the model does not say
  what the program does.
\<close>

datatype error =
    EOFError
  | KeyboardInterrupt
  | OSError
  | ValueError string
  | TypeError string
  | NameError string
  | IndexError
  | OverflowError
  | AttributeError string
  | ConfigurationError string "string option" "string set option" "pyclass list option" bool
  | Unmodelled string

section \<open>Sequences\<close>

text \<open>
  \<open>xs[i]\<close> on a tuple or list: a negative index counts from the end, an index out of
  range raises \<open>IndexError\<close>.
\<close>

definition py_index :: "'a list \<Rightarrow> int \<Rightarrow> error + 'a" where
  "py_index xs i =
     (if i < - int (length xs) \<or> int (length xs) \<le> i then Inl IndexError
      else if i < 0 then Inr (xs ! nat (int (length xs) + i))
      else Inr (xs ! nat i))"

text \<open>
  \<open>list.insert(i, x)\<close> for an index that fits \<open>Py_ssize_t\<close>: a negative index counts
  from the end, and an index beyond either end is clamped to that end.
\<close>

definition insert_index :: "int \<Rightarrow> nat \<Rightarrow> nat" where
  "insert_index i n = (if i < 0 then nat (max (int n + i) 0) else min (nat i) n)"

definition py_insert :: "int \<Rightarrow> 'a \<Rightarrow> 'a list \<Rightarrow> 'a list" where
  "py_insert i x xs =
     (let k = insert_index i (length xs) in take k xs @ x # drop k xs)"

text \<open>
  The index argument of \<open>list.insert\<close> must be an integer (\<open>bool\<close> is a subclass of
  \<open>int\<close>); any other value raises \<open>TypeError\<close>. The integer is converted to the C type
  \<open>Py_ssize_t\<close>, of 64 bits on the usual builds; an integer outside its range raises
  \<open>OverflowError\<close>.
\<close>

definition in_ssize_t :: "int \<Rightarrow> bool" where
  "in_ssize_t i = (- (2 ^ 63) \<le> i \<and> i < 2 ^ 63)"

fun as_index :: "pyval \<Rightarrow> error + int" where
  "as_index (VInt i) = (if in_ssize_t i then Inr i else Inl OverflowError)"
| "as_index (VBool b) = Inr (if b then 1 else 0)"
| "as_index v = Inl (TypeError ''object cannot be interpreted as an integer'')"

text \<open>
  \<open>j.insert(pos, x)\<close> on the value \<open>j\<close> that \<open>json.loads\<close> returned: only a list has
  the method.
\<close>

fun insert_into :: "pyval \<Rightarrow> pyval \<Rightarrow> pyval \<Rightarrow> error + pyval" where
  "insert_into (VList xs) pos x =
     (case as_index pos of
        Inl e \<Rightarrow> Inl e
      | Inr i \<Rightarrow> Inr (VList (py_insert i x xs)))"
| "insert_into j pos x = Inl (AttributeError ''insert'')"

section \<open>Strings\<close>

text \<open>
  A \<open>string\<close> is the list of the code points of a Python \<open>str\<close>, for code points
  below 256. \<open>str.strip()\<close> removes the whitespace at both ends; on this range
  \<open>str.isspace\<close> holds of the code points 9-13, 28-32, 133 and 160.
\<close>

definition isspace :: "char \<Rightarrow> bool" where
  "isspace c =
     (let k = (of_char c :: nat)
      in (9 \<le> k \<and> k \<le> 13) \<or> (28 \<le> k \<and> k \<le> 32) \<or> k = 133 \<or> k = 160)"

definition strip :: "string \<Rightarrow> string" where
  "strip s = rev (dropWhile isspace (rev (dropWhile isspace s)))"

text \<open>\<open>sep.join(parts)\<close>.\<close>

fun join :: "string \<Rightarrow> string list \<Rightarrow> string" where
  "join sep [] = []"
| "join sep [x] = x"
| "join sep (x # y # ys) = x @ sep @ join sep (y # ys)"

section \<open>The json module\<close>

text \<open>
  \<open>json.loads\<close> and \<open>json.dumps\<close> belong to the standard library of Python; the
  program calls them with one argument each (source lines 177 and 179). They are
  modelled after the decoder and the encoder of CPython: whitespace is space, tab,
  newline and carriage return; a string must not hold a raw control character; an
  object becomes a \<open>dict\<close>, where a repeated key keeps its first place and takes the
  last value; the encoder separates items by \<open>, \<close> and a key from its value by
  \<open>: \<close> and escapes every character outside the printable ASCII range; a number
  with a fraction or an exponent is the nearest double, which is written by its
  shortest decimal that reads back as the same double. One part of JSON is outside the
  model and yields \<open>Unmodelled\<close>: the escape by four hexadecimal digits of a code point
  above 255, which no \<open>string\<close> holds. The limits of the interpreter (the recursion
  limit, the digit limit of the conversion between \<open>int\<close> and \<open>str\<close> of later
  versions) are not modelled.
\<close>

definition is_json_ws :: "char \<Rightarrow> bool" where
  "is_json_ws c = (c = CHR '' '' \<or> c = CHR 0x09 \<or> c = CHR 0x0A \<or> c = CHR 0x0D)"

definition skip_ws :: "string \<Rightarrow> string" where
  "skip_ws cs = dropWhile is_json_ws cs"

definition is_digit :: "char \<Rightarrow> bool" where
  "is_digit c = (48 \<le> (of_char c :: nat) \<and> (of_char c :: nat) \<le> 57)"

definition digits_value :: "string \<Rightarrow> int" where
  "digits_value ds = foldl (\<lambda>acc d. 10 * acc + (of_char d - 48)) 0 ds"

text \<open>The two-character escapes of a JSON string.\<close>

definition unescape :: "char \<Rightarrow> char option" where
  "unescape e =
     (if e = CHR 0x22 then Some (CHR 0x22)
      else if e = CHR 0x5C then Some (CHR 0x5C)
      else if e = CHR ''/'' then Some (CHR ''/'')
      else if e = CHR ''b'' then Some (CHR 0x08)
      else if e = CHR ''f'' then Some (CHR 0x0C)
      else if e = CHR ''n'' then Some (CHR 0x0A)
      else if e = CHR ''r'' then Some (CHR 0x0D)
      else if e = CHR ''t'' then Some (CHR 0x09)
      else None)"

text \<open>The value of four hexadecimal digits, of either case.\<close>

definition hex_digit :: "char \<Rightarrow> nat option" where
  "hex_digit c =
     (let k = (of_char c :: nat)
      in if 48 \<le> k \<and> k \<le> 57 then Some (k - 48)
         else if 97 \<le> k \<and> k \<le> 102 then Some (k - 87)
         else if 65 \<le> k \<and> k \<le> 70 then Some (k - 55)
         else None)"

definition hex4 :: "char \<Rightarrow> char \<Rightarrow> char \<Rightarrow> char \<Rightarrow> nat option" where
  "hex4 h1 h2 h3 h4 =
     (case (hex_digit h1, hex_digit h2, hex_digit h3, hex_digit h4) of
        (Some a, Some b, Some c, Some d) \<Rightarrow> Some (((a * 16 + b) * 16 + c) * 16 + d)
      | _ \<Rightarrow> None)"

text \<open>
  The text after an opening double quote: the decoded string and what follows the
  closing quote.
\<close>

fun scanstring :: "string \<Rightarrow> error + string \<times> string" where
  "scanstring [] = Inl (ValueError ''Unterminated string'')"
| "scanstring (c # cs) =
     (if c = CHR 0x22 then Inr ([], cs)
      else if c = CHR 0x5C then
        (case cs of
           [] \<Rightarrow> Inl (ValueError ''Unterminated string'')
         | e # cs' \<Rightarrow>
             if e = CHR ''u'' then
               (case cs' of
                  h1 # h2 # h3 # h4 # cs'' \<Rightarrow>
                    (case hex4 h1 h2 h3 h4 of
                       None \<Rightarrow> Inl (ValueError ''Invalid unicode escape'')
                     | Some n \<Rightarrow>
                         if n < 256 then
                           (case scanstring cs'' of
                              Inl err \<Rightarrow> Inl err
                            | Inr (s, rest) \<Rightarrow> Inr (char_of n # s, rest))
                         else Inl (Unmodelled ''code point above 255''))
                | _ \<Rightarrow> Inl (ValueError ''Invalid unicode escape''))
             else
               (case unescape e of
                  None \<Rightarrow> Inl (ValueError ''Invalid escape'')
                | Some ch \<Rightarrow>
                    (case scanstring cs' of
                       Inl err \<Rightarrow> Inl err
                     | Inr (s, rest) \<Rightarrow> Inr (ch # s, rest))))
      else if (of_char c :: nat) < 32 then Inl (ValueError ''Invalid control character'')
      else
        (case scanstring cs of
           Inl err \<Rightarrow> Inl err
         | Inr (s, rest) \<Rightarrow> Inr (c # s, rest)))"

text \<open>
  The integer part of a number, \<open>-?(0|[1-9][0-9]*)\<close>, and whether a fraction or an
  exponent follows it.
\<close>

definition scan_int :: "string \<Rightarrow> (int \<times> string) option" where
  "scan_int cs =
     (let neg = (cs \<noteq> [] \<and> hd cs = CHR ''-'');
          ds = (if neg then tl cs else cs)
      in case ds of
           [] \<Rightarrow> None
         | d # r \<Rightarrow>
             if d = CHR ''0'' then Some (0, r)
             else if is_digit d then
               Some ((if neg then - digits_value (takeWhile is_digit ds)
                      else digits_value (takeWhile is_digit ds)),
                     dropWhile is_digit ds)
             else None)"

fun float_follows :: "string \<Rightarrow> bool" where
  "float_follows (c # d # ds) =
     ((c = CHR ''.'' \<and> is_digit d)
      \<or> ((c = CHR ''e'' \<or> c = CHR ''E'')
          \<and> (is_digit d \<or> ((d = CHR ''+'' \<or> d = CHR ''-'') \<and> ds \<noteq> [] \<and> is_digit (hd ds)))))"
| "float_follows cs = False"

text \<open>
  The digits of a fraction and the value of an exponent at the head of a text, each
  with the text that follows it; without a fraction or an exponent, no digits or 0 and
  the text itself.
\<close>

definition scan_fraction :: "string \<Rightarrow> string \<times> string" where
  "scan_fraction cs =
     (case cs of
        c # d # ds \<Rightarrow>
          if c = CHR ''.'' \<and> is_digit d
          then (takeWhile is_digit (d # ds), dropWhile is_digit (d # ds))
          else ([], cs)
      | _ \<Rightarrow> ([], cs))"

definition scan_exponent :: "string \<Rightarrow> int \<times> string" where
  "scan_exponent cs =
     (case cs of
        c # d # ds \<Rightarrow>
          if c = CHR ''e'' \<or> c = CHR ''E'' then
            (if is_digit d
             then (digits_value (takeWhile is_digit (d # ds)), dropWhile is_digit (d # ds))
             else if (d = CHR ''+'' \<or> d = CHR ''-'') \<and> ds \<noteq> [] \<and> is_digit (hd ds)
             then ((if d = CHR ''-'' then - 1 else 1) * digits_value (takeWhile is_digit ds),
                   dropWhile is_digit ds)
             else (0, cs))
          else (0, cs)
      | _ \<Rightarrow> (0, cs))"

text \<open>
  The arithmetic of floats is on integers; a fraction is a pair of a numerator and a
  positive denominator.

  The quotient of two positive integers rounded to the nearest integer, a tie to the
  even one.
\<close>

definition round_half_even :: "int \<Rightarrow> int \<Rightarrow> int" where
  "round_half_even num den =
     (let q = num div den; r = num mod den
      in if 2 * r < den then q
         else if den < 2 * r then q + 1
         else if even q then q else q + 1)"

text \<open>The number of binary digits of a positive integer.\<close>

function bitlen :: "int \<Rightarrow> nat" where
  "bitlen n = (if n \<le> 0 then 0 else Suc (bitlen (n div 2)))"
  by pat_completeness auto
termination
  by (relation "measure nat") auto

declare bitlen.simps [simp del]

text \<open>Scaling a fraction by a power of two or of ten with an integer exponent.\<close>

definition scale :: "int \<Rightarrow> int \<times> int \<Rightarrow> int \<Rightarrow> int \<times> int" where
  "scale b q e = (if 0 \<le> e then (fst q * b ^ nat e, snd q) else (fst q, snd q * b ^ nat (- e)))"

text \<open>
  The double nearest to the fraction \<open>a / b\<close> with \<open>a > 0\<close>: mantissa and exponent, or
  \<open>None\<close> beyond the largest double.
\<close>

definition nearest_double :: "int \<Rightarrow> int \<Rightarrow> (int \<times> int) option" where
  "nearest_double a b =
     (let d = int (bitlen a) - int (bitlen b);
          fl = (if snd (scale 2 (a, b) (- d)) \<le> fst (scale 2 (a, b) (- d)) then d else d - 1);
          e = max (fl - 52) (- 1074);
          m = round_half_even (fst (scale 2 (a, b) (- e))) (snd (scale 2 (a, b) (- e)));
          m' = (if m = 2 ^ 53 then 2 ^ 52 else m);
          e' = (if m = 2 ^ 53 then e + 1 else e)
      in if 971 < e' then None else Some (m', e'))"

text \<open>\<open>float(s)\<close> for the decimal numeral \<open>n\<close> times ten to the \<open>ex\<close>, with its sign.\<close>

definition to_double :: "bool \<Rightarrow> int \<Rightarrow> int \<Rightarrow> pyfloat" where
  "to_double neg n ex =
     (if n = 0 then FNum neg 0 0
      else
        (case nearest_double (fst (scale 10 (n, 1) ex)) (snd (scale 10 (n, 1) ex)) of
           None \<Rightarrow> FInf neg
         | Some (m, e) \<Rightarrow> if m = 0 then FNum neg 0 0 else FNum neg m e))"

text \<open>
  The float that a number with a fraction or an exponent denotes: \<open>neg\<close> tells whether the
  number began with a minus sign, \<open>n\<close> is the value of the digits of its integer part,
  and \<open>cs\<close> is the text after them.
\<close>

definition scan_float :: "bool \<Rightarrow> int \<Rightarrow> string \<Rightarrow> pyval \<times> string" where
  "scan_float neg n cs =
     (let fraction = scan_fraction cs;
          exponent = scan_exponent (snd fraction)
      in (VFloat (to_double neg
                    (n * 10 ^ length (fst fraction) + digits_value (fst fraction))
                    (fst exponent - int (length (fst fraction)))),
          snd exponent))"

text \<open>\<open>dict(pairs)\<close>: a repeated key keeps its place and takes the later value.\<close>

fun dict_set :: "string \<Rightarrow> pyval \<Rightarrow> (string \<times> pyval) list \<Rightarrow> (string \<times> pyval) list" where
  "dict_set k v [] = [(k, v)]"
| "dict_set k v ((k', v') # kvs) =
     (if k = k' then (k, v) # kvs else (k', v') # dict_set k v kvs)"

definition dict_of_pairs :: "(string \<times> pyval) list \<Rightarrow> (string \<times> pyval) list" where
  "dict_of_pairs ps = foldl (\<lambda>d kv. dict_set (fst kv) (snd kv) d) [] ps"

text \<open>
  A value that is neither a string nor an object nor an array: a constant or a number,
  tried in the order of the scanner.
\<close>

definition scan_atom :: "string \<Rightarrow> error + pyval \<times> string" where
  "scan_atom cs =
     (if take 4 cs = ''null'' then Inr (VNone, drop 4 cs)
      else if take 4 cs = ''true'' then Inr (VBool True, drop 4 cs)
      else if take 5 cs = ''false'' then Inr (VBool False, drop 5 cs)
      else
        (case scan_int cs of
           Some (i, rest) \<Rightarrow>
             if float_follows rest
             then Inr (scan_float (take 1 cs = ''-'') (abs i) rest)
             else Inr (VInt i, rest)
         | None \<Rightarrow>
             if take 3 cs = ''NaN'' then Inr (VFloat FNaN, drop 3 cs)
             else if take 8 cs = ''Infinity'' then Inr (VFloat (FInf False), drop 8 cs)
             else if take 9 cs = ''-Infinity'' then Inr (VFloat (FInf True), drop 9 cs)
             else Inl (ValueError ''Expecting value'')))"

text \<open>
  The scanner. \<open>scan_once\<close> reads one value at the head of the text. \<open>JSONArray\<close>
  reads the elements of an array from the first element on, \<open>JSONObject\<close> the members
  of an object from the opening quote of a key on; both carry what they have read, in
  reverse. The first argument bounds the depth of the calls; \<open>json_loads\<close> passes a
  bound that no text uses up (lemma \<open>json_loads_depth\<close>).
\<close>

fun scan_once :: "nat \<Rightarrow> string \<Rightarrow> error + pyval \<times> string"
  and JSONArray :: "nat \<Rightarrow> string \<Rightarrow> pyval list \<Rightarrow> error + pyval \<times> string"
  and JSONObject :: "nat \<Rightarrow> string \<Rightarrow> (string \<times> pyval) list \<Rightarrow> error + pyval \<times> string"
where
  "scan_once 0 cs = Inl (Unmodelled ''nesting'')"
| "scan_once (Suc k) [] = Inl (ValueError ''Expecting value'')"
| "scan_once (Suc k) (c # r) =
     (if c = CHR 0x22 then
        (case scanstring r of
           Inl e \<Rightarrow> Inl e
         | Inr (s, rest) \<Rightarrow> Inr (VStr s, rest))
      else if c = CHR ''{'' then
        (case skip_ws r of
           [] \<Rightarrow> Inl (ValueError ''Expecting property name enclosed in double quotes'')
         | d # r' \<Rightarrow>
             if d = CHR ''}'' then Inr (VDict [], r')
             else if d = CHR 0x22 then JSONObject k (d # r') []
             else Inl (ValueError ''Expecting property name enclosed in double quotes''))
      else if c = CHR ''['' then
        (case skip_ws r of
           [] \<Rightarrow> Inl (ValueError ''Expecting value'')
         | d # r' \<Rightarrow>
             if d = CHR '']'' then Inr (VList [], r')
             else JSONArray k (d # r') [])
      else scan_atom (c # r))"
| "JSONArray 0 cs acc = Inl (Unmodelled ''nesting'')"
| "JSONArray (Suc k) cs acc =
     (case scan_once k cs of
        Inl e \<Rightarrow> Inl e
      | Inr (v, rest) \<Rightarrow>
          (case skip_ws rest of
             [] \<Rightarrow> Inl (ValueError ''Expecting , delimiter'')
           | d # r \<Rightarrow>
               if d = CHR '']'' then Inr (VList (rev (v # acc)), r)
               else if d = CHR '','' then JSONArray k (skip_ws r) (v # acc)
               else Inl (ValueError ''Expecting , delimiter'')))"
| "JSONObject 0 cs acc = Inl (Unmodelled ''nesting'')"
| "JSONObject (Suc k) cs acc =
     (case scanstring (tl cs) of
        Inl e \<Rightarrow> Inl e
      | Inr (key, rest) \<Rightarrow>
          (case skip_ws rest of
             [] \<Rightarrow> Inl (ValueError ''Expecting : delimiter'')
           | d # r \<Rightarrow>
               if d \<noteq> CHR '':'' then Inl (ValueError ''Expecting : delimiter'')
               else
                 (case scan_once k (skip_ws r) of
                    Inl e \<Rightarrow> Inl e
                  | Inr (v, rest') \<Rightarrow>
                      (case skip_ws rest' of
                         [] \<Rightarrow> Inl (ValueError ''Expecting , delimiter'')
                       | d' # r' \<Rightarrow>
                           if d' = CHR ''}'' then
                             Inr (VDict (dict_of_pairs (rev ((key, v) # acc))), r')
                           else if d' = CHR '','' then
                             (case skip_ws r' of
                                [] \<Rightarrow>
                                  Inl (ValueError
                                         ''Expecting property name enclosed in double quotes'')
                              | q # r'' \<Rightarrow>
                                  if q = CHR 0x22 then JSONObject k (q # r'') ((key, v) # acc)
                                  else
                                    Inl (ValueError
                                           ''Expecting property name enclosed in double quotes''))
                           else Inl (ValueError ''Expecting , delimiter'')))))"

text \<open>
  \<open>json.loads(s)\<close>: whitespace, one value, whitespace, and nothing more. A failure
  to parse is a \<open>ValueError\<close>.
\<close>

definition json_loads :: "string \<Rightarrow> error + pyval" where
  "json_loads s =
     (case scan_once (Suc (2 * length s)) (skip_ws s) of
        Inl e \<Rightarrow> Inl e
      | Inr (v, rest) \<Rightarrow>
          if skip_ws rest = [] then Inr v else Inl (ValueError ''Extra data''))"

text \<open>The decimal numeral of an integer, as \<open>str\<close> prints it.\<close>

function decimal :: "int \<Rightarrow> string" where
  "decimal n =
     (if n < 10 then [''0123456789'' ! nat n]
      else decimal (n div 10) @ [''0123456789'' ! nat (n mod 10)])"
  by pat_completeness auto
termination
  by (relation "measure nat") auto

declare decimal.simps [simp del]

definition str_int :: "int \<Rightarrow> string" where
  "str_int i = (if i < 0 then CHR ''-'' # decimal (- i) else decimal i)"

text \<open>
  The decimal exponent \<open>k\<close> of a positive fraction: ten to the \<open>k - 1\<close> is at most the
  fraction, which is below ten to the \<open>k\<close>.
\<close>

definition decimal_exponent :: "int \<Rightarrow> int \<Rightarrow> int" where
  "decimal_exponent a b =
     (let k0 = int (length (decimal a)) - int (length (decimal b))
      in if snd (scale 10 (a, b) (- k0)) \<le> fst (scale 10 (a, b) (- k0)) then k0 + 1 else k0)"

text \<open>
  The shortest decimal that reads back as the double \<open>m\<close> times two to the \<open>e\<close>, tried
  with \<open>n\<close> digits and then with more, up to 17: the digits as a number, and how many
  digits were asked for.
\<close>

fun shortest :: "nat \<Rightarrow> nat \<Rightarrow> int \<Rightarrow> int \<Rightarrow> int \<Rightarrow> int \<times> nat" where
  "shortest fuel n m e k =
     (let y = scale 10 (scale 2 (m, 1) e) (int n - k);
          lo = fst y div snd y;
          r = fst y mod snd y;
          ok_lo = (to_double False lo (k - int n) = FNum False m e);
          ok_hi = (to_double False (lo + 1) (k - int n) = FNum False m e)
      in if r = 0 then (lo, n)
         else if ok_lo \<and> (\<not> ok_hi \<or> 2 * r \<le> snd y) then (lo, n)
         else if ok_hi then (lo + 1, n)
         else (case fuel of
                 0 \<Rightarrow> (if 2 * r \<le> snd y then lo else lo + 1, n)
               | Suc fuel' \<Rightarrow> shortest fuel' (Suc n) m e k))"

definition strip_zeros :: "string \<Rightarrow> string" where
  "strip_zeros ds = rev (dropWhile (\<lambda>c. c = CHR ''0'') (rev ds))"

definition two_digits :: "int \<Rightarrow> string" where
  "two_digits n = (if n < 10 then CHR ''0'' # decimal n else decimal n)"

text \<open>\<open>repr\<close> of a positive finite double.\<close>

definition repr_positive :: "int \<Rightarrow> int \<Rightarrow> string" where
  "repr_positive m e =
     (let k = decimal_exponent (fst (scale 2 (m, 1) e)) (snd (scale 2 (m, 1) e));
          found = shortest 16 1 m e k;
          all_digits = decimal (fst found);
          decpt = k + int (length all_digits) - int (snd found);
          ds = strip_zeros all_digits
      in if - 4 < decpt \<and> decpt \<le> 16 then
           (if decpt \<le> 0 then ''0.'' @ replicate (nat (- decpt)) (CHR ''0'') @ ds
            else if int (length ds) \<le> decpt
            then ds @ replicate (nat decpt - length ds) (CHR ''0'') @ ''.0''
            else take (nat decpt) ds @ ''.'' @ drop (nat decpt) ds)
         else
           (if length ds = 1 then ds else hd ds # ''.'' @ tl ds)
           @ ''e'' @ (if decpt - 1 < 0 then ''-'' else ''+'')
           @ two_digits (abs (decpt - 1)))"

text \<open>How \<open>json.dumps\<close> writes a float.\<close>

fun float_repr :: "pyfloat \<Rightarrow> string" where
  "float_repr FNaN = ''NaN''"
| "float_repr (FInf neg) = (if neg then ''-Infinity'' else ''Infinity'')"
| "float_repr (FNum neg m e) =
     (if neg then ''-'' else '''') @ (if m = 0 then ''0.0'' else repr_positive m e)"

text \<open>
  The encoder's string escape (\<open>ensure_ascii\<close> is on by default): short escapes for
  the quote, the backslash and five control characters, the escape by four hexadecimal
  digits for every other character outside the range from space to tilde.
\<close>

definition escape_char :: "char \<Rightarrow> string" where
  "escape_char c =
     (if c = CHR 0x22 then [CHR 0x5C, CHR 0x22]
      else if c = CHR 0x5C then [CHR 0x5C, CHR 0x5C]
      else if c = CHR 0x0A then [CHR 0x5C, CHR ''n'']
      else if c = CHR 0x0D then [CHR 0x5C, CHR ''r'']
      else if c = CHR 0x09 then [CHR 0x5C, CHR ''t'']
      else if c = CHR 0x0C then [CHR 0x5C, CHR ''f'']
      else if c = CHR 0x08 then [CHR 0x5C, CHR ''b'']
      else if 32 \<le> (of_char c :: nat) \<and> (of_char c :: nat) \<le> 126 then [c]
      else [CHR 0x5C, CHR ''u'', CHR ''0'', CHR ''0'',
            ''0123456789abcdef'' ! ((of_char c :: nat) div 16),
            ''0123456789abcdef'' ! ((of_char c :: nat) mod 16)])"

definition encode_string :: "string \<Rightarrow> string" where
  "encode_string s = CHR 0x22 # concat (map escape_char s) @ [CHR 0x22]"

fun json_dumps :: "pyval \<Rightarrow> string" where
  "json_dumps VNone = ''null''"
| "json_dumps (VBool b) = (if b then ''true'' else ''false'')"
| "json_dumps (VInt i) = str_int i"
| "json_dumps (VFloat f) = float_repr f"
| "json_dumps (VStr s) = encode_string s"
| "json_dumps (VList xs) = ''['' @ join '', '' (map json_dumps xs) @ '']''"
| "json_dumps (VDict kvs) =
     ''{'' @ join '', '' (map (\<lambda>kv. encode_string (fst kv) @ '': '' @ json_dumps (snd kv)) kvs)
     @ ''}''"

section \<open>Modules and the registry\<close>

text \<open>
  A module instance: the name of its class, the attributes \<open>output\<close> and \<open>position\<close>
  that the engine reads and writes (class defaults \<open>None\<close> and \<open>0\<close>, source lines
  26-27), and the attributes that \<open>setattr\<close> stored for its settings.
\<close>

record module =
  class_name :: string
  "output" :: pyval
  position :: pyval
  attrs :: "(string \<times> pyval) list"

text \<open>
  The merge of one tick (source lines 253-254): the modules in the order of the list,
  each inserting its output at its position. An exception ends the loop.
\<close>

fun merge :: "module list \<Rightarrow> pyval \<Rightarrow> error + pyval" where
  "merge [] j = Inr j"
| "merge (m # ms) j =
     (case insert_into j (position m) (output m) of
        Inl e \<Rightarrow> Inl e
      | Inr j' \<Rightarrow> merge ms j')"








section \<open>ClassFinder\<close>

text \<open>
  A member of a Python module is a class or something else; \<open>mod_members\<close> lists the
  members by name, in the sorted order in which \<open>inspect.getmembers\<close> returns them.
\<close>

datatype member = Class pyclass | Other

record pymodule =
  mod_name :: string
  mod_members :: "(string \<times> member) list"

record classfinder =
  baseclass :: pyclass
  exclude :: "pyclass list"

fun issubclass :: "pyclass \<Rightarrow> pyclass \<Rightarrow> bool" where
  "issubclass (PyClass name bases) b =
     (PyClass name bases = b \<or> list_ex (\<lambda>base. issubclass base b) bases)"

definition predicate :: "classfinder \<Rightarrow> member \<Rightarrow> bool" where
  "predicate f obj =
     (case obj of
        Other \<Rightarrow> False
      | Class c \<Rightarrow> issubclass c (baseclass f) \<and> c \<notin> set (exclude f))"

definition getmembers :: "pymodule \<Rightarrow> (member \<Rightarrow> bool) \<Rightarrow> (string \<times> member) list" where
  "getmembers m p = filter (\<lambda>nv. p (snd nv)) (mod_members m)"

text \<open>
  The program is Python 3 (\<open>super()\<close> without arguments, source lines 23 and 136).
  There \<open>zip\<close> returns an iterator, and an iterator has no subscript: every
  \<open>zip(...)[i]\<close> raises \<open>TypeError\<close>.
\<close>

datatype zip_object = Zip "(string \<times> member) list"

definition zip_star :: "(string \<times> member) list \<Rightarrow> zip_object" where
  "zip_star members = Zip members"

definition zip_getitem :: "zip_object \<Rightarrow> int \<Rightarrow> error + pyclass list" where
  "zip_getitem z i = Inl (TypeError ''zip object is not subscriptable'')"

text \<open>Source lines 193-195.\<close>

definition search_module :: "classfinder \<Rightarrow> pymodule \<Rightarrow> error + pyclass list" where
  "search_module f m = zip_getitem (zip_star (getmembers m (predicate f))) 1"

text \<open>Source lines 197-207.\<close>

definition get_class :: "classfinder \<Rightarrow> pymodule \<Rightarrow> error + pyclass" where
  "get_class f m =
     (case search_module f m of
        Inl e \<Rightarrow> Inl e
      | Inr classes \<Rightarrow>
          if length classes > 1 then
            Inl (ConfigurationError (mod_name m) None None (Some classes) False)
          else if classes = [] then
            Inl (ConfigurationError (mod_name m) None None None True)
          else py_index classes 0)"

text \<open>
  The same two functions read with a \<open>zip\<close> that returns a list, as Python 2 had it:
  the list of the transposed rows, which is empty when there is no member, so that
  its index 1 does not exist.
\<close>

definition the_classes :: "(string \<times> member) list \<Rightarrow> pyclass list" where
  "the_classes members = concat (map (\<lambda>nv. case snd nv of Class c \<Rightarrow> [c] | Other \<Rightarrow> []) members)"

definition search_module_list :: "classfinder \<Rightarrow> pymodule \<Rightarrow> error + pyclass list" where
  "search_module_list f m =
     (let members = getmembers m (predicate f)
      in if members = [] then Inl IndexError else Inr (the_classes members))"

definition get_class_list :: "classfinder \<Rightarrow> pymodule \<Rightarrow> error + pyclass" where
  "get_class_list f m =
     (case search_module_list f m of
        Inl e \<Rightarrow> Inl e
      | Inr classes \<Rightarrow>
          if length classes > 1 then
            Inl (ConfigurationError (mod_name m) None None (Some classes) False)
          else if classes = [] then
            Inl (ConfigurationError (mod_name m) None None None True)
          else py_index classes 0)"

text \<open>The three base classes (source lines 25, 65 and 74).\<close>

definition Module :: pyclass where
  "Module = PyClass ''Module'' []"

definition AsyncModule :: pyclass where
  "AsyncModule = PyClass ''AsyncModule'' [Module]"

definition IntervalModule :: pyclass where
  "IntervalModule = PyClass ''IntervalModule'' [AsyncModule]"

section \<open>StandaloneIO\<close>

text \<open>
  Source lines 128-150. The state of a \<open>StandaloneIO\<close> object that \<open>read_line\<close>
  uses is its counter \<open>n\<close>, which starts at the class attribute \<open>n = -1\<close>.
\<close>

definition proto :: "string list" where
  \<open>proto = [''{"version": 1}'', ''['', ''[]'', '',[]'']\<close>

definition standalone_n0 :: int where
  "standalone_n0 = - 1"

definition standalone_read_line :: "int \<Rightarrow> (error + string) \<times> int" where
  "standalone_read_line n =
     (let n' = n + 1 in (py_index proto (min n' (int (length proto) - 1)), n'))"

text \<open>The results of \<open>k\<close> successive calls of \<open>read_line\<close> on one object.\<close>

fun standalone_reads :: "nat \<Rightarrow> int \<Rightarrow> (error + string) list" where
  "standalone_reads 0 n = []"
| "standalone_reads (Suc k) n =
     (case standalone_read_line n of (r, n') \<Rightarrow> r # standalone_reads k n')"

section \<open>The line channel\<close>

text \<open>
  What a call of \<open>inp.readline()\<close> does: it returns a string (the line with its
  newline, or the empty string at the end of the file), or \<open>KeyboardInterrupt\<close> arrives
  while it waits, or the stream fails with an \<open>OSError\<close>.
\<close>

datatype readline = Returns string | Interrupted | Fails

text \<open>
  What a channel has done so far: the lines that \<open>read_line\<close> returned and the frames
  that \<open>write_line\<close> wrote and flushed, in the order of time.
\<close>

datatype event = Got string | Put string

datatype handler = IOHandler | StandaloneIO

text \<open>
  A channel object with its environment. \<open>inp\<close> lists what the coming calls of
  \<open>inp.readline()\<close> do; after the last one the stream is at the end of the file.
  \<open>standalone_n\<close> is the attribute \<open>n\<close> of a \<open>StandaloneIO\<close>. \<open>sleeps\<close> is the number
  of calls of \<open>time.sleep\<close> that complete before \<open>KeyboardInterrupt\<close> arrives during
  the next one. The duration of a sleep is not modelled.
\<close>

record io =
  handler :: handler
  inp :: "readline list"
  standalone_n :: int
  sleeps :: nat
  trace :: "event list"

definition new_IOHandler :: "readline list \<Rightarrow> io" where
  "new_IOHandler stream =
     \<lparr>handler = IOHandler, inp = stream, standalone_n = standalone_n0, sleeps = 0, trace = []\<rparr>"

definition new_StandaloneIO :: "nat \<Rightarrow> io" where
  "new_StandaloneIO k =
     \<lparr>handler = StandaloneIO, inp = [], standalone_n = standalone_n0, sleeps = k, trace = []\<rparr>"

text \<open>Source lines 90-94.\<close>

definition write_line :: "string \<Rightarrow> io \<Rightarrow> io" where
  "write_line message io = io\<lparr>trace := trace io @ [Put (message @ [CHR 0x0A])]\<rparr>"

text \<open>Source lines 105-118.\<close>

definition IOHandler_read_line :: "io \<Rightarrow> (error + string) \<times> io" where
  "IOHandler_read_line io =
     (case inp io of
        [] \<Rightarrow> (Inl EOFError, io)
      | r # rs \<Rightarrow>
          (case r of
             Interrupted \<Rightarrow> (Inl EOFError, io\<lparr>inp := rs\<rparr>)
           | Fails \<Rightarrow> (Inl OSError, io\<lparr>inp := rs\<rparr>)
           | Returns s \<Rightarrow>
               if strip s = [] then (Inl EOFError, io\<lparr>inp := rs\<rparr>)
               else (Inr (strip s), io\<lparr>inp := rs, trace := trace io @ [Got (strip s)]\<rparr>)))"

text \<open>Source lines 147-150.\<close>

definition StandaloneIO_read_line :: "io \<Rightarrow> (error + string) \<times> io" where
  "StandaloneIO_read_line io =
     (case standalone_read_line (standalone_n io) of
        (Inl e, n') \<Rightarrow> (Inl e, io\<lparr>standalone_n := n'\<rparr>)
      | (Inr line, n') \<Rightarrow> (Inr line, io\<lparr>standalone_n := n', trace := trace io @ [Got line]\<rparr>))"

definition read_line :: "io \<Rightarrow> (error + string) \<times> io" where
  "read_line io =
     (case handler io of
        IOHandler \<Rightarrow> IOHandler_read_line io
      | StandaloneIO \<Rightarrow> StandaloneIO_read_line io)"

text \<open>
  One step of the generator \<open>read\<close>: it yields a line (\<open>Some\<close>), or returns (\<open>None\<close>),
  or an exception leaves it. Source lines 96-103 for \<open>IOHandler\<close>, 139-145 for
  \<open>StandaloneIO\<close>.
\<close>

definition read_next :: "io \<Rightarrow> (error + string option) \<times> io" where
  "read_next io =
     (case handler io of
        IOHandler \<Rightarrow>
          (case IOHandler_read_line io of
             (Inl e, io') \<Rightarrow> if e = EOFError then (Inr None, io') else (Inl e, io')
           | (Inr line, io') \<Rightarrow> (Inr (Some line), io'))
      | StandaloneIO \<Rightarrow>
          if sleeps io = 0 then (Inr None, io)
          else
            (case StandaloneIO_read_line (io\<lparr>sleeps := sleeps io - 1\<rparr>) of
               (Inl e, io') \<Rightarrow> (Inl e, io')
             | (Inr line, io') \<Rightarrow> (Inr (Some line), io')))"

text \<open>What is left of the environment of a channel.\<close>

definition pending :: "io \<Rightarrow> nat" where
  "pending io = length (inp io) + sleeps io"

lemma read_next_pending:
  "read_next io = (Inr (Some line), io') \<Longrightarrow> pending io' < pending io"
  by (auto simp: read_next_def IOHandler_read_line_def StandaloneIO_read_line_def pending_def
      split: handler.splits list.splits readline.splits if_splits prod.splits sum.splits)

text \<open>
  The generator \<open>read\<close> run to its end: the lines it yields, or the exception that
  leaves it.
\<close>

function read_all :: "io \<Rightarrow> (error + string list) \<times> io" where
  "read_all io =
     (case read_next io of
        (Inl e, io') \<Rightarrow> (Inl e, io')
      | (Inr None, io') \<Rightarrow> (Inr [], io')
      | (Inr (Some line), io') \<Rightarrow>
          (case read_all io' of
             (Inl e, io'') \<Rightarrow> (Inl e, io'')
           | (Inr ls, io'') \<Rightarrow> (Inr (line # ls), io'')))"
  by pat_completeness auto
termination
  by (relation "measure pending") (auto intro: read_next_pending [OF sym])

declare read_all.simps [simp del]

section \<open>JSONIO\<close>

text \<open>\<open>self.io.write_line(self.io.read_line())\<close>, source lines 155 and 156.\<close>

definition echo_line :: "io \<Rightarrow> error option \<times> io" where
  "echo_line io =
     (case read_line io of
        (Inl e, io') \<Rightarrow> (Some e, io')
      | (Inr line, io') \<Rightarrow> (None, write_line line io'))"

text \<open>\<open>JSONIO.__init__\<close>, source lines 153-156.\<close>

definition JSONIO_init :: "io \<Rightarrow> error option \<times> io" where
  "JSONIO_init io =
     (case echo_line io of
        (Some e, io') \<Rightarrow> (Some e, io')
      | (None, io') \<Rightarrow> echo_line io')"

text \<open>
  Source lines 171-175: the prefix is the comma at the start of the line, if there is
  one, and the content is the line without it.
\<close>

definition line_prefix :: "string \<Rightarrow> string" where
  "line_prefix line = (if take 1 line = '','' then '','' else [])"

definition line_content :: "string \<Rightarrow> string" where
  "line_content line = (if take 1 line = '','' then drop 1 line else line)"

text \<open>
  \<open>parse_line\<close> (source lines 165-179) around the body of its \<open>with\<close> statement: the
  body receives the parsed value and returns it as it has mutated it, or raises; an
  exception of the body leaves the context manager before the write.
\<close>

definition parse_line :: "string \<Rightarrow> (pyval \<Rightarrow> error + pyval) \<Rightarrow> io \<Rightarrow> error option \<times> io" where
  "parse_line line body io =
     (case json_loads (line_content line) of
        Inl e \<Rightarrow> (Some e, io)
      | Inr j \<Rightarrow>
          (case body j of
             Inl e \<Rightarrow> (Some e, io)
           | Inr j' \<Rightarrow> (None, write_line (line_prefix line @ json_dumps j') io)))"

lemma parse_line_pending: "parse_line line body io = (r, io') \<Longrightarrow> pending io' = pending io"
  by (auto simp: parse_line_def write_line_def pending_def Let_def split: sum.splits)

lemma tick_pending:
  assumes "(Inr (Some line), io') = read_next io" and "(r, io'') = parse_line line body io'"
  shows "pending io'' < pending io"
  using read_next_pending [OF assms(1) [symmetric]] parse_line_pending [OF assms(2) [symmetric]]
  by simp

text \<open>
  The loop of \<open>run\<close> over \<open>JSONIO.read\<close> (source lines 158-163 and 252-254): each line
  of the channel is parsed, the modules are merged into it, and the result is written.
\<close>

function tick_loop :: "module list \<Rightarrow> io \<Rightarrow> error option \<times> io" where
  "tick_loop ms io =
     (case read_next io of
        (Inl e, io') \<Rightarrow> (Some e, io')
      | (Inr None, io') \<Rightarrow> (None, io')
      | (Inr (Some line), io') \<Rightarrow>
          (case parse_line line (merge ms) io' of
             (Some e, io'') \<Rightarrow> (Some e, io'')
           | (None, io'') \<Rightarrow> tick_loop ms io''))"
  by pat_completeness auto
termination
  by (relation "measure (\<lambda>(ms, io). pending io)") (auto intro: tick_pending)

declare tick_loop.simps [simp del]

section \<open>The engine\<close>

text \<open>
  Module instances and lists are objects. \<open>heap\<close> gives the module object behind a
  reference, and \<open>lists\<close> the content of the list object at an address: the
  references to module objects that the list holds, in order.
\<close>

type_synonym ref = nat

record world =
  heap :: "ref \<Rightarrow> module"
  lists :: "nat \<Rightarrow> ref list"

text \<open>
  The attributes of the class \<open>i3pystatus\<close> that are bound to list objects: its body
  binds \<open>modules\<close> to one new list (source line 210), here the list at address 0.
\<close>

definition class_lists :: "(string \<times> nat) list" where
  "class_lists = [(''modules'', 0)]"

text \<open>
  An engine instance: its attributes \<open>io\<close> and \<open>finder\<close>, and in \<open>inst_lists\<close> the
  attributes of the instance that are bound to list objects, by name, each with the
  address of its list.
\<close>

record engine =
  eng_io :: io
  finder :: classfinder
  inst_lists :: "(string \<times> nat) list"

text \<open>
  \<open>i3pystatus.__init__\<close> (source lines 212-218) assigns \<open>self.io\<close> and \<open>self.finder\<close>
  and nothing else. The second argument is the environment of a standalone channel, as
  for \<open>new_StandaloneIO\<close>.
\<close>

definition i3pystatus_init :: "bool \<Rightarrow> nat \<Rightarrow> readline list \<Rightarrow> engine" where
  "i3pystatus_init standalone k input_stream =
     \<lparr>eng_io = (if standalone then new_StandaloneIO k else new_IOHandler input_stream),
      finder = \<lparr>baseclass = Module, exclude = [Module, IntervalModule, AsyncModule]\<rparr>,
      inst_lists = []\<rparr>"

text \<open>
  The address of the list that the expression \<open>self.modules\<close> yields: an attribute of
  the instance comes before the attribute of the class.
\<close>

definition modules_ref :: "engine \<Rightarrow> nat option" where
  "modules_ref self =
     (case map_of (inst_lists self) ''modules'' of
        Some a \<Rightarrow> Some a
      | None \<Rightarrow> map_of class_lists ''modules'')"

text \<open>The content of the list \<open>self.modules\<close>.\<close>

definition self_modules :: "engine \<Rightarrow> world \<Rightarrow> ref list" where
  "self_modules self w = (case modules_ref self of Some a \<Rightarrow> lists w a | None \<Rightarrow> [])"

text \<open>The first argument of \<open>register\<close>: a Python module, or a module instance.\<close>

datatype register_arg = PyModule pymodule | Instance ref

text \<open>
  \<open>_make_instance\<close> (source lines 220-240). It is a class method with the parameter
  \<open>cls\<close>; the first statement of its branch for a Python module evaluates the name
  \<open>self\<close>, which is bound nowhere, so that branch raises \<open>NameError\<close> at once.
\<close>

definition make_instance ::
  "register_arg \<Rightarrow> pyval \<Rightarrow> pyval list \<Rightarrow> (string \<times> pyval) list \<Rightarrow> error + ref \<times> pyval" where
  "make_instance module pos args kwargs =
     (case module of
        PyModule m \<Rightarrow> Inl (NameError ''self'')
      | Instance r \<Rightarrow>
          if args \<noteq> [] \<or> kwargs \<noteq> [] then
            Inl (ValueError
                   ''Additional arguments are invalid if 'module' is already an object'')
          else Inr (r, pos))"

text \<open>
  \<open>register\<close> (source lines 242-249): \<open>append\<close> changes the list object that
  \<open>self.modules\<close> yields. The hook \<open>registered\<close> of \<open>Module\<close> does nothing; that of
  \<open>AsyncModule\<close> starts a thread, which is not modelled.
\<close>

definition register ::
  "engine \<Rightarrow> register_arg \<Rightarrow> pyval \<Rightarrow> pyval list \<Rightarrow> (string \<times> pyval) list \<Rightarrow> world
     \<Rightarrow> error option \<times> world" where
  "register self module pos args kwargs w =
     (case make_instance module pos args kwargs of
        Inl e \<Rightarrow> (Some e, w)
      | Inr (r, pos') \<Rightarrow>
          (case modules_ref self of
             None \<Rightarrow> (Some (AttributeError ''modules''), w)
           | Some a \<Rightarrow>
               (None, w\<lparr>lists := (lists w)(a := lists w a @ [r]),
                        heap := (heap w)(r := (heap w r)\<lparr>position := pos'\<rparr>)\<rparr>)))"

text \<open>The module objects that the loop \<open>for module in self.modules\<close> visits.\<close>

definition registry :: "engine \<Rightarrow> world \<Rightarrow> module list" where
  "registry self w = map (heap w) (self_modules self w)"

text \<open>
  One tick of an engine: the body of the loop of \<open>run\<close> for one line of the channel.
\<close>

definition tick :: "engine \<Rightarrow> world \<Rightarrow> string \<Rightarrow> io \<Rightarrow> error option \<times> io" where
  "tick self w line io = parse_line line (merge (registry self w)) io"

text \<open>
  \<open>run\<close> (source lines 251-254), in a world whose modules do not change their
  outputs meanwhile.
\<close>

definition run :: "engine \<Rightarrow> world \<Rightarrow> error option \<times> io" where
  "run self w =
     (case JSONIO_init (eng_io self) of
        (Some e, io') \<Rightarrow> (Some e, io')
      | (None, io') \<Rightarrow> tick_loop (registry self w) io')"

text \<open>Whether an exception is a \<open>ConfigurationError\<close>.\<close>

fun is_ConfigurationError :: "error \<Rightarrow> bool" where
  "is_ConfigurationError (ConfigurationError m k missing classes invalid) = True"
| "is_ConfigurationError e = False"

section \<open>Notions used in the statements and proofs\<close>

text \<open>A module instance with the given output and position, for concrete runs.\<close>

definition mk :: "pyval \<Rightarrow> pyval \<Rightarrow> module" where
  "mk out pos = \<lparr>class_name = ''M'', output = out, position = pos, attrs = []\<rparr>"

text \<open>
  Some occurrence of \<open>a\<close> stands at a lower index than some occurrence of \<open>b\<close>.
\<close>

fun precedes :: "'a \<Rightarrow> 'a \<Rightarrow> 'a list \<Rightarrow> bool" where
  "precedes a b [] = False"
| "precedes a b (x # xs) = ((x = a \<and> b \<in> set xs) \<or> precedes a b xs)"

text \<open>Insertion at a position that is already known to lie within the list.\<close>

definition ins :: "nat \<Rightarrow> 'a \<Rightarrow> 'a list \<Rightarrow> 'a list" where
  "ins k x xs = take k xs @ x # drop k xs"

text \<open>\<open>a\<close> occurs, and \<open>b\<close> occurs somewhere after that occurrence.\<close>

definition before :: "'a \<Rightarrow> 'a \<Rightarrow> 'a list \<Rightarrow> bool" where
  "before a b xs = (\<exists>us vs ws. xs = us @ a # vs @ b # ws)"

text \<open>\<open>a\<close> occurs at index \<open>p\<close> or later.\<close>

definition from_index :: "nat \<Rightarrow> 'a \<Rightarrow> 'a list \<Rightarrow> bool" where
  "from_index p a xs = (\<exists>us ws. xs = us @ a # ws \<and> p \<le> length us)"

text \<open>\<open>a\<close> occurs at index \<open>q\<close> or earlier.\<close>

definition upto_index :: "nat \<Rightarrow> 'a \<Rightarrow> 'a list \<Rightarrow> bool" where
  "upto_index q a xs = (\<exists>us ws. xs = us @ a # ws \<and> length us \<le> q)"

text \<open>
  With depth \<open>k\<close>, each function of the scanner returns less text than it was given.
\<close>

definition shortens :: "nat \<Rightarrow> bool" where
  "shortens k =
     ((\<forall>cs v rest. scan_once k cs = Inr (v, rest) \<longrightarrow> length rest < length cs)
      \<and> (\<forall>cs acc v rest. JSONArray k cs acc = Inr (v, rest) \<longrightarrow> length rest < length cs)
      \<and> (\<forall>cs acc v rest. JSONObject k cs acc = Inr (v, rest) \<longrightarrow> length rest < length cs))"

text \<open>The result of a scanner function that has used up its depth.\<close>

definition nesting :: error where
  "nesting = Unmodelled ''nesting''"

text \<open>A depth of more than twice the length of the text is never used up.\<close>

definition deep_enough :: "nat \<Rightarrow> bool" where
  "deep_enough k =
     ((\<forall>cs. 2 * length cs < k \<longrightarrow> scan_once k cs \<noteq> Inl nesting)
      \<and> (\<forall>cs acc. 2 * length cs + 1 < k \<longrightarrow> JSONArray k cs acc \<noteq> Inl nesting)
      \<and> (\<forall>cs acc. 2 * length cs + 1 < k \<longrightarrow> JSONObject k cs acc \<noteq> Inl nesting))"


section \<open>Properties\<close>

subsection \<open>Insertion and the merge\<close>


lemma py_insert_ins: "py_insert i x xs = ins (insert_index i (length xs)) x xs"
  by (simp add: py_insert_def ins_def Let_def)

lemma insert_index_le: "insert_index i n \<le> n"
  unfolding insert_index_def by (cases "i < 0") auto

lemma insert_index_in_range: "0 \<le> i \<Longrightarrow> i \<le> int n \<Longrightarrow> insert_index i n = nat i"
  by (simp add: insert_index_def)

lemma ins_append_left: "k \<le> length us \<Longrightarrow> ins k x (us @ vs) = ins k x us @ vs"
  by (simp add: ins_def)

lemma ins_append_right: "length us < k \<Longrightarrow> ins k x (us @ vs) = us @ ins (k - length us) x vs"
  by (simp add: ins_def)

lemma ins_Cons: "0 < k \<Longrightarrow> ins k x (a # vs) = a # ins (k - 1) x vs"
  by (cases k) (simp_all add: ins_def)

lemma before_ins: "before a b xs \<Longrightarrow> before a b (ins k x xs)"
proof -
  assume "before a b xs"
  then obtain us vs ws where xs: "xs = us @ a # vs @ b # ws"
    by (auto simp: before_def)
  show ?thesis
  proof (cases "k \<le> length us")
    case True
    then have "ins k x xs = ins k x us @ a # vs @ b # ws"
      by (simp add: xs ins_append_left)
    then show ?thesis unfolding before_def by blast
  next
    case False
    then have 1: "ins k x xs = us @ a # ins (k - length us - 1) x (vs @ b # ws)"
      by (simp add: xs ins_append_right ins_Cons)
    show ?thesis
    proof (cases "k - length us - 1 \<le> length vs")
      case True
      then have "ins k x xs = us @ a # ins (k - length us - 1) x vs @ b # ws"
        by (simp add: 1 ins_append_left)
      then show ?thesis unfolding before_def by blast
    next
      case False
      then have "ins k x xs = us @ a # vs @ b # ins (k - length us - 1 - length vs - 1) x ws"
        by (simp add: 1 ins_append_right ins_Cons)
      then show ?thesis unfolding before_def by blast
    qed
  qed
qed

lemma from_index_ins: "from_index p a xs \<Longrightarrow> from_index p a (ins k x xs)"
proof -
  assume "from_index p a xs"
  then obtain us ws where xs: "xs = us @ a # ws" and p: "p \<le> length us"
    by (auto simp: from_index_def)
  show ?thesis
  proof (cases "k \<le> length us")
    case True
    then have "ins k x xs = ins k x us @ a # ws"
      by (simp add: xs ins_append_left)
    moreover have "p \<le> length (ins k x us)" using p by (simp add: ins_def)
    ultimately show ?thesis unfolding from_index_def by blast
  next
    case False
    then have "ins k x xs = us @ a # ins (k - length us - 1) x ws"
      by (simp add: xs ins_append_right ins_Cons)
    then show ?thesis unfolding from_index_def using p by blast
  qed
qed

lemma from_index_ins_before:
  assumes "from_index p a xs" shows "before b a (ins p b xs)"
proof -
  from assms obtain us ws where xs: "xs = us @ a # ws" and p: "p \<le> length us"
    by (auto simp: from_index_def)
  have "ins p b xs = take p us @ b # drop p us @ a # ws"
    using p by (simp add: xs ins_def)
  then show ?thesis unfolding before_def by blast
qed

lemma from_index_self: "p \<le> length xs \<Longrightarrow> from_index p a (ins p a xs)"
  unfolding from_index_def ins_def
  by (rule exI [of _ "take p xs"], rule exI [of _ "drop p xs"]) simp

lemma before_nth: "before a b xs \<Longrightarrow> \<exists>i k. i < k \<and> k < length xs \<and> xs ! i = a \<and> xs ! k = b"
proof -
  assume "before a b xs"
  then obtain us vs ws where xs: "xs = us @ a # vs @ b # ws"
    by (auto simp: before_def)
  have "xs ! length us = a" by (simp add: xs)
  moreover have "xs ! (length us + 1 + length vs) = b"
    by (simp add: xs nth_append)
  moreover have "length us + 1 + length vs < length xs" by (simp add: xs)
  moreover have "length us < length us + 1 + length vs" by simp
  ultimately show ?thesis by blast
qed

lemma merge_append:
  "merge (as @ bs) j = (case merge as j of Inl e \<Rightarrow> Inl e | Inr j' \<Rightarrow> merge bs j')"
  by (induction as arbitrary: j) (simp_all split: sum.split)

lemma insert_into_VList:
  "insert_into (VList xs) pos x = Inr r \<Longrightarrow>
     \<exists>i. as_index pos = Inr i \<and> r = VList (ins (insert_index i (length xs)) x xs)"
  by (auto simp: py_insert_ins split: sum.splits)

lemma merge_preserves:
  assumes step: "\<And>k x xs. P xs \<Longrightarrow> P (ins k x xs)"
  shows "merge ms (VList xs) = Inr r \<Longrightarrow> P xs \<Longrightarrow> \<exists>ys. r = VList ys \<and> P ys"
proof (induction ms arbitrary: xs)
  case Nil
  then show ?case by auto
next
  case (Cons m ms)
  from Cons.prems(1) obtain j' where j': "insert_into (VList xs) (position m) (output m) = Inr j'"
    and rest: "merge ms j' = Inr r"
    by (auto split: sum.splits)
  from insert_into_VList [OF j'] obtain i where
    "j' = VList (ins (insert_index i (length xs)) (output m) xs)" by blast
  with rest Cons.IH [of "ins (insert_index i (length xs)) (output m) xs"] step Cons.prems(2)
  show ?case by blast
qed

lemma length_ins: "length (ins k x xs) = Suc (length xs)"
  by (simp add: ins_def)

lemma precedes_decomposed: "precedes a b (us @ a # vs @ b # ws)"
  by (induction us) simp_all

lemma before_precedes: "before a b xs \<Longrightarrow> precedes a b xs"
  by (auto simp: before_def precedes_decomposed)

lemma precedes_before: "precedes a b xs \<Longrightarrow> before a b xs"
proof (induction xs)
  case Nil
  then show ?case by simp
next
  case (Cons x xs)
  show ?case
  proof (cases "x = a \<and> b \<in> set xs")
    case True
    then obtain vs ws where "xs = vs @ b # ws" by (auto dest: split_list)
    with True have "x # xs = [] @ a # vs @ b # ws" by simp
    then show ?thesis unfolding before_def by blast
  next
    case False
    with Cons.prems have "precedes a b xs" by auto
    then obtain us vs ws where "xs = us @ a # vs @ b # ws"
      using Cons.IH by (auto simp: before_def)
    then have "x # xs = (x # us) @ a # vs @ b # ws" by simp
    then show ?thesis unfolding before_def by blast
  qed
qed

lemma precedes_iff_nth:
  "precedes a b xs \<longleftrightarrow> (\<exists>i k. i < k \<and> k < length xs \<and> xs ! i = a \<and> xs ! k = b)"
proof
  assume "precedes a b xs"
  then show "\<exists>i k. i < k \<and> k < length xs \<and> xs ! i = a \<and> xs ! k = b"
    by (intro before_nth precedes_before)
next
  assume "\<exists>i k. i < k \<and> k < length xs \<and> xs ! i = a \<and> xs ! k = b"
  then obtain i k where ik: "i < k" "k < length xs" "xs ! i = a" "xs ! k = b" by blast
  then have "xs = take i xs @ a # drop (Suc i) xs"
    by (metis id_take_nth_drop less_trans)
  moreover have "drop (Suc i) xs = take (k - Suc i) (drop (Suc i) xs) @ b # drop (Suc k) xs"
  proof -
    have "k - Suc i < length (drop (Suc i) xs)" using ik by simp
    from id_take_nth_drop [OF this] ik show ?thesis by simp
  qed
  ultimately have "xs = take i xs @ a # take (k - Suc i) (drop (Suc i) xs) @ b # drop (Suc k) xs"
    by simp
  then have "before a b xs" unfolding before_def by blast
  then show "precedes a b xs" by (rule before_precedes)
qed

lemma merge_counts:
  assumes step: "\<And>n k x xs. P n xs \<Longrightarrow> P (Suc n) (ins k x xs)"
  shows "merge ms (VList xs) = Inr r \<Longrightarrow> P n xs \<Longrightarrow> \<exists>ys. r = VList ys \<and> P (n + length ms) ys"
proof (induction ms arbitrary: xs n)
  case Nil
  then show ?case by auto
next
  case (Cons m ms)
  from Cons.prems(1) obtain j' where j': "insert_into (VList xs) (position m) (output m) = Inr j'"
    and rest: "merge ms j' = Inr r"
    by (auto split: sum.splits)
  from insert_into_VList [OF j'] obtain i where
    j'_eq: "j' = VList (ins (insert_index i (length xs)) (output m) xs)" by blast
  from step [OF Cons.prems(2)]
  have "P (Suc n) (ins (insert_index i (length xs)) (output m) xs)" .
  from Cons.IH [OF rest [unfolded j'_eq] this] show ?case by simp
qed

lemma merge_length:
  "merge ms (VList xs) = Inr r \<Longrightarrow> \<exists>ys. r = VList ys \<and> length ys = length xs + length ms"
  using merge_counts [where P = "\<lambda>n ys. length ys = n" and n = "length xs"]
  by (simp add: length_ins)

lemma merge_one:
  assumes "merge (m # ms) (VList xs) = Inr r" and "position m = VInt p"
  shows "in_ssize_t p"
    and "merge ms (VList (ins (insert_index p (length xs)) (output m) xs)) = Inr r"
  using assms by (auto simp: py_insert_ins split: if_splits sum.splits)

lemma upto_index_ins: "upto_index q a xs \<Longrightarrow> upto_index (Suc q) a (ins k x xs)"
proof -
  assume "upto_index q a xs"
  then obtain us ws where xs: "xs = us @ a # ws" and q: "length us \<le> q"
    by (auto simp: upto_index_def)
  show ?thesis
  proof (cases "k \<le> length us")
    case True
    then have "ins k x xs = ins k x us @ a # ws"
      by (simp add: xs ins_append_left)
    moreover have "length (ins k x us) \<le> Suc q" using q by (simp add: length_ins)
    ultimately show ?thesis unfolding upto_index_def by blast
  next
    case False
    then have "ins k x xs = us @ a # ins (k - length us - 1) x ws"
      by (simp add: xs ins_append_right ins_Cons)
    then show ?thesis unfolding upto_index_def using q by (meson le_SucI)
  qed
qed

lemma upto_index_self: "k \<le> length xs \<Longrightarrow> upto_index k a (ins k a xs)"
  unfolding upto_index_def ins_def
  by (rule exI [of _ "take k xs"], rule exI [of _ "drop k xs"]) simp

lemma upto_index_ins_before:
  assumes "upto_index q a xs" and "q < k"
  shows "before a b (ins k b xs)"
proof -
  from assms obtain us ws where xs: "xs = us @ a # ws" and q: "length us < k"
    by (auto simp: upto_index_def)
  then have "ins k b xs = us @ a # ins (k - length us - 1) b ws"
    by (simp add: xs ins_append_right ins_Cons)
  then have "ins k b xs = us @ a # take (k - length us - 1) ws @ b # drop (k - length us - 1) ws"
    by (simp add: ins_def)
  then show ?thesis unfolding before_def by blast
qed

lemma member_ins: "a \<in> set xs \<Longrightarrow> a \<in> set (ins k x xs)"
  by (auto simp: ins_def dest: in_set_takeD in_set_dropD) (metis append_take_drop_id Un_iff set_append)

lemma member_self: "a \<in> set (ins k a xs)"
  by (simp add: ins_def)

lemma member_append_before: "a \<in> set xs \<Longrightarrow> before a b (ins (length xs) b xs)"
proof -
  assume "a \<in> set xs"
  then obtain us ws where "xs = us @ a # ws" by (auto dest: split_list)
  then have "ins (length xs) b xs = us @ a # ws @ b # []" by (simp add: ins_def)
  then show ?thesis unfolding before_def by blast
qed

lemma member_prepend_before: "a \<in> set xs \<Longrightarrow> before b a (ins 0 b xs)"
proof -
  assume "a \<in> set xs"
  then obtain us ws where "xs = us @ a # ws" by (auto dest: split_list)
  then have "ins 0 b xs = [] @ b # us @ a # ws" by (simp add: ins_def)
  then show ?thesis unfolding before_def by blast
qed

text \<open>
  The merge of a registry in which \<open>m1\<close> comes before \<open>m2\<close>, both at position \<open>p\<close>, cut
  at the two insertions.
\<close>

lemma merge_two:
  assumes run: "merge (ms1 @ [m1] @ ms2 @ [m2] @ ms3) (VList xs) = Inr (VList res)"
    and p1: "position m1 = VInt p" and p2: "position m2 = VInt p"
  obtains ys1 ys2 where
    "length ys1 = length xs + length ms1"
    "merge ms2 (VList (ins (insert_index p (length ys1)) (output m1) ys1)) = Inr (VList ys2)"
    "length ys2 = length xs + length ms1 + 1 + length ms2"
    "merge ms3 (VList (ins (insert_index p (length ys2)) (output m2) ys2)) = Inr (VList res)"
proof -
  from run obtain j1 where j1: "merge ms1 (VList xs) = Inr j1"
    and r1: "merge (m1 # ms2 @ [m2] @ ms3) j1 = Inr (VList res)"
    by (auto simp: merge_append split: sum.splits)
  from merge_length [OF j1] obtain ys1 where ys1: "j1 = VList ys1"
    and len1: "length ys1 = length xs + length ms1" by blast
  let ?zs1 = "ins (insert_index p (length ys1)) (output m1) ys1"
  from merge_one(2) [OF r1 [unfolded ys1] p1]
  have r2: "merge (ms2 @ [m2] @ ms3) (VList ?zs1) = Inr (VList res)" .
  then obtain j2 where j2: "merge ms2 (VList ?zs1) = Inr j2"
    and r3: "merge (m2 # ms3) j2 = Inr (VList res)"
    by (auto simp: merge_append split: sum.splits)
  from merge_length [OF j2] obtain ys2 where ys2: "j2 = VList ys2"
    and len2: "length ys2 = length ?zs1 + length ms2" by blast
  from merge_one(2) [OF r3 [unfolded ys2] p2]
  have r4: "merge ms3 (VList (ins (insert_index p (length ys2)) (output m2) ys2)) = Inr (VList res)" .
  from len1 j2 [unfolded ys2] len2 r4 show ?thesis
    by (intro that [of ys1 ys2]) (simp_all add: length_ins)
qed

lemma merge_keeps_before:
  "merge ms (VList xs) = Inr (VList res) \<Longrightarrow> before a b xs \<Longrightarrow> before a b res"
  using merge_preserves [where P = "before a b", OF before_ins] by blast

text \<open>
  C1 (as amended). Let \<open>m1\<close> be registered before \<open>m2\<close>, both with the integer position
  \<open>p\<close>, with any modules before, between and after them, and let the merge of a tick
  succeed. Write \<open>n\<close> for the length of the array when \<open>m1\<close> inserts (the incoming
  array and one element for each module before \<open>m1\<close>) and \<open>k\<close> for the number of modules
  between the two. The output of \<open>m2\<close> ends up at a lower index than the output of
  \<open>m1\<close>, to its left, when \<open>0 \<le> p \<le> n\<close> and when \<open>p \<le> - (n + 1 + k)\<close>. It ends up at a
  higher index, to its right, when \<open>- n \<le> p < 0\<close> and when \<open>n + 1 + k \<le> p\<close>. For two
  modules registered one after the other, \<open>k = 0\<close>, these four cases are all integers.
  \<open>precedes a b res\<close> says that an occurrence of \<open>a\<close> has a lower index in \<open>res\<close> than an
  occurrence of \<open>b\<close> (lemma \<open>precedes_iff_nth\<close>).
\<close>

theorem C1_shared_position_order:
  assumes reg: "ms = ms1 @ [m1] @ ms2 @ [m2] @ ms3"
    and p1: "position m1 = VInt p" and p2: "position m2 = VInt p"
    and run: "merge ms (VList xs) = Inr (VList res)"
  shows "(0 \<le> p \<and> p \<le> int (length xs + length ms1)
            \<longrightarrow> precedes (output m2) (output m1) res)
       \<and> (p \<le> - int (length xs + length ms1 + 1 + length ms2)
            \<longrightarrow> precedes (output m2) (output m1) res)
       \<and> (- int (length xs + length ms1) \<le> p \<and> p < 0
            \<longrightarrow> precedes (output m1) (output m2) res)
       \<and> (int (length xs + length ms1 + 1 + length ms2) \<le> p
            \<longrightarrow> precedes (output m1) (output m2) res)"
proof -
  from merge_two [OF run [unfolded reg] p1 p2] obtain ys1 ys2 where
    len1: "length ys1 = length xs + length ms1"
    and mid: "merge ms2 (VList (ins (insert_index p (length ys1)) (output m1) ys1)) = Inr (VList ys2)"
    and len2: "length ys2 = length xs + length ms1 + 1 + length ms2"
    and last: "merge ms3 (VList (ins (insert_index p (length ys2)) (output m2) ys2)) = Inr (VList res)"
    by blast
  let ?k1 = "insert_index p (length ys1)"
  let ?k2 = "insert_index p (length ys2)"
  let ?zs1 = "ins ?k1 (output m1) ys1"
  have k1_le: "?k1 \<le> length ys1" by (rule insert_index_le)
  have mem: "output m1 \<in> set ys2"
    using merge_preserves [where P = "\<lambda>ys. output m1 \<in> set ys", OF member_ins mid member_self]
    by simp
  have left_low: "precedes (output m2) (output m1) res"
    if "0 \<le> p" and "p \<le> int (length xs + length ms1)"
  proof -
    from that len1 have k1: "?k1 = nat p" by (simp add: insert_index_in_range)
    from that len2 have k2: "?k2 = nat p" by (simp add: insert_index_in_range)
    from k1 k1_le have "from_index (nat p) (output m1) ?zs1"
      by (simp add: from_index_self)
    from merge_preserves [where P = "from_index (nat p) (output m1)", OF from_index_ins mid this]
    have "from_index (nat p) (output m1) ys2" by simp
    then have "before (output m2) (output m1) (ins ?k2 (output m2) ys2)"
      unfolding k2 by (rule from_index_ins_before)
    from merge_keeps_before [OF last this] show ?thesis by (rule before_precedes)
  qed
  have left_far: "precedes (output m2) (output m1) res"
    if "p \<le> - int (length xs + length ms1 + 1 + length ms2)"
  proof -
    from that len2 have "?k2 = 0" by (simp add: insert_index_def)
    with mem have "before (output m2) (output m1) (ins ?k2 (output m2) ys2)"
      by (simp add: member_prepend_before)
    from merge_keeps_before [OF last this] show ?thesis by (rule before_precedes)
  qed
  have right_neg: "precedes (output m1) (output m2) res"
    if "- int (length xs + length ms1) \<le> p" and "p < 0"
  proof -
    from that len1 have k1: "?k1 = nat (int (length ys1) + p)" by (simp add: insert_index_def)
    from that len2 have k2: "?k2 = nat (int (length ys2) + p)" by (simp add: insert_index_def)
    have "upto_index ?k1 (output m1) ?zs1"
      using k1_le by (rule upto_index_self)
    from merge_counts [where P = "\<lambda>n. upto_index n (output m1)", OF upto_index_ins mid this]
    have "upto_index (?k1 + length ms2) (output m1) ys2" by simp
    moreover have "?k1 + length ms2 < ?k2"
      unfolding k1 k2 using that len1 len2 by simp
    ultimately have "before (output m1) (output m2) (ins ?k2 (output m2) ys2)"
      by (rule upto_index_ins_before)
    from merge_keeps_before [OF last this] show ?thesis by (rule before_precedes)
  qed
  have right_far: "precedes (output m1) (output m2) res"
    if "int (length xs + length ms1 + 1 + length ms2) \<le> p"
  proof -
    from that len2 have "?k2 = length ys2" by (simp add: insert_index_def)
    with mem have "before (output m1) (output m2) (ins ?k2 (output m2) ys2)"
      by (simp add: member_append_before)
    from merge_keeps_before [OF last this] show ?thesis by (rule before_precedes)
  qed
  from left_low left_far right_neg right_far show ?thesis by blast
qed


text \<open>
  The theorem in each of its four cases: position 1 after one earlier module, merged
  into \<open>[]\<close>; position -5 and position -1, merged into \<open>[7]\<close>; position 2 with one
  module between, merged into \<open>[]\<close>.
\<close>

theorem C1_shared_position_order_witness:
  "merge ([mk (VStr ''X'') (VInt 0)] @ [mk (VStr ''A'') (VInt 1)] @ [] @ [mk (VStr ''B'') (VInt 1)] @ [])
       (VList []) = Inr (VList [VStr ''X'', VStr ''B'', VStr ''A''])
   \<and> precedes (VStr ''B'') (VStr ''A'') [VStr ''X'', VStr ''B'', VStr ''A'']
   \<and> merge ([] @ [mk (VStr ''A'') (VInt (- 5))] @ [] @ [mk (VStr ''B'') (VInt (- 5))] @ [])
       (VList [VInt 7]) = Inr (VList [VStr ''B'', VStr ''A'', VInt 7])
   \<and> precedes (VStr ''B'') (VStr ''A'') [VStr ''B'', VStr ''A'', VInt 7]
   \<and> merge ([] @ [mk (VStr ''A'') (VInt (- 1))] @ [] @ [mk (VStr ''B'') (VInt (- 1))] @ [])
       (VList [VInt 7]) = Inr (VList [VStr ''A'', VStr ''B'', VInt 7])
   \<and> precedes (VStr ''A'') (VStr ''B'') [VStr ''A'', VStr ''B'', VInt 7]
   \<and> merge ([] @ [mk (VStr ''A'') (VInt 2)] @ [mk (VStr ''Y'') (VInt 0)] @ [mk (VStr ''B'') (VInt 2)] @ [])
       (VList []) = Inr (VList [VStr ''Y'', VStr ''A'', VStr ''B''])
   \<and> precedes (VStr ''A'') (VStr ''B'') [VStr ''Y'', VStr ''A'', VStr ''B'']"
proof -
  note ev = mk_def py_insert_def insert_index_def in_ssize_t_def
  have r1: "merge ([mk (VStr ''X'') (VInt 0)] @ [mk (VStr ''A'') (VInt 1)] @ []
              @ [mk (VStr ''B'') (VInt 1)] @ []) (VList [])
            = Inr (VList [VStr ''X'', VStr ''B'', VStr ''A''])"
    by (simp add: ev)
  have r2: "merge ([] @ [mk (VStr ''A'') (VInt (- 5))] @ [] @ [mk (VStr ''B'') (VInt (- 5))] @ [])
              (VList [VInt 7]) = Inr (VList [VStr ''B'', VStr ''A'', VInt 7])"
    by (simp add: ev)
  have r3: "merge ([] @ [mk (VStr ''A'') (VInt (- 1))] @ [] @ [mk (VStr ''B'') (VInt (- 1))] @ [])
              (VList [VInt 7]) = Inr (VList [VStr ''A'', VStr ''B'', VInt 7])"
    by (simp add: ev)
  have r4: "merge ([] @ [mk (VStr ''A'') (VInt 2)] @ [mk (VStr ''Y'') (VInt 0)]
              @ [mk (VStr ''B'') (VInt 2)] @ []) (VList [])
            = Inr (VList [VStr ''Y'', VStr ''A'', VStr ''B''])"
    by (simp add: ev)
  have pos: "position (mk out (VInt q)) = VInt q" for out q
    by (simp add: mk_def)
  have out: "output (mk o' q') = o'" for o' q'
    by (simp add: mk_def)
  from C1_shared_position_order [OF refl pos pos r1]
  have a: "precedes (VStr ''B'') (VStr ''A'') [VStr ''X'', VStr ''B'', VStr ''A'']"
    by (simp add: out)
  from C1_shared_position_order [OF refl pos pos r2]
  have b: "precedes (VStr ''B'') (VStr ''A'') [VStr ''B'', VStr ''A'', VInt 7]"
    by (simp add: out)
  from C1_shared_position_order [OF refl pos pos r3]
  have c: "precedes (VStr ''A'') (VStr ''B'') [VStr ''A'', VStr ''B'', VInt 7]"
    by (simp add: out)
  from C1_shared_position_order [OF refl pos pos r4]
  have d: "precedes (VStr ''A'') (VStr ''B'') [VStr ''Y'', VStr ''A'', VStr ''B'']"
    by (simp add: out)
  from r1 r2 r3 r4 a b c d show ?thesis by (simp add: ev)
qed


text \<open>
  C1 as stated fails: modules with outputs \<open>A\<close> and \<open>B\<close>, registered in this order at
  position 0 and merged into the empty array, give \<open>[B, A]\<close>, so the later module is to
  the left, and no occurrence of \<open>A\<close> precedes one of \<open>B\<close>.
\<close>

theorem C1_counterexample:
  "merge [mk (VStr ''A'') (VInt 0), mk (VStr ''B'') (VInt 0)] (VList [])
     = Inr (VList [VStr ''B'', VStr ''A''])
   \<and> \<not> precedes (VStr ''A'') (VStr ''B'') [VStr ''B'', VStr ''A'']"
  by (simp add: mk_def py_insert_def insert_index_def in_ssize_t_def)

text \<open>
  For the positions that the four cases leave out, which exist only with modules
  between the two, the order depends on those modules: with position 1 and the empty
  array, a module at position 0 between them puts \<open>B\<close> to the left of \<open>A\<close>, a module
  at position 5 to the right.
\<close>

lemma order_between_depends:
  "merge [mk (VStr ''A'') (VInt 1), mk (VStr ''Y'') (VInt 0), mk (VStr ''B'') (VInt 1)] (VList [])
     = Inr (VList [VStr ''Y'', VStr ''B'', VStr ''A''])"
  "merge [mk (VStr ''A'') (VInt 1), mk (VStr ''Y'') (VInt 5), mk (VStr ''B'') (VInt 1)] (VList [])
     = Inr (VList [VStr ''A'', VStr ''B'', VStr ''Y''])"
  by (simp_all add: mk_def py_insert_def insert_index_def in_ssize_t_def)




subsection \<open>The handshake\<close>

lemma read_line_trace:
  "read_line io = (Inr line, io') \<Longrightarrow> trace io' = trace io @ [Got line]"
  by (auto simp: read_line_def IOHandler_read_line_def StandaloneIO_read_line_def
      split: handler.splits list.splits readline.splits if_splits prod.splits sum.splits)

lemma echo_line_trace:
  "echo_line io = (None, io') \<Longrightarrow>
     \<exists>line. trace io' = trace io @ [Got line, Put (line @ [CHR 0x0A])]"
  by (auto simp: echo_line_def write_line_def dest!: read_line_trace split: prod.splits sum.splits)

lemma read_next_trace: "read_next io = (r, io') \<Longrightarrow> \<exists>t. trace io' = trace io @ t"
  by (auto simp: read_next_def IOHandler_read_line_def StandaloneIO_read_line_def
      split: handler.splits list.splits readline.splits if_splits prod.splits sum.splits)

lemma parse_line_trace: "parse_line line body io = (r, io') \<Longrightarrow> \<exists>t. trace io' = trace io @ t"
  by (auto simp: parse_line_def write_line_def split: sum.splits)

lemma tick_loop_trace: "tick_loop ms io = (r, io') \<Longrightarrow> \<exists>t. trace io' = trace io @ t"
proof (induction ms io arbitrary: r io' rule: tick_loop.induct)
  case (1 ms io)
  obtain x io1 where step: "read_next io = (x, io1)" by (cases "read_next io")
  from read_next_trace [OF step] obtain t1 where t1: "trace io1 = trace io @ t1" by blast
  show ?case
  proof (cases x)
    case (Inl e)
    with "1.prems" step t1 show ?thesis by (simp add: tick_loop.simps [of ms io])
  next
    case (Inr y)
    show ?thesis
    proof (cases y)
      case None
      with "1.prems" step t1 Inr show ?thesis by (simp add: tick_loop.simps [of ms io])
    next
      case (Some line)
      obtain z io2 where p: "parse_line line (merge ms) io1 = (z, io2)"
        by (cases "parse_line line (merge ms) io1")
      from parse_line_trace [OF p] obtain t2 where t2: "trace io2 = trace io1 @ t2" by blast
      show ?thesis
      proof (cases z)
        case None
        with "1.prems" step Inr Some p have "tick_loop ms io2 = (r, io')"
          by (simp add: tick_loop.simps [of ms io])
        from "1.IH" [OF step [symmetric] Inr Some p [symmetric] None this]
        obtain t3 where "trace io' = trace io2 @ t3" by blast
        with t1 t2 show ?thesis by simp
      next
        case (Some e)
        with "1.prems" step Inr \<open>y = Some line\<close> p t1 t2 show ?thesis
          by (simp add: tick_loop.simps [of ms io])
      qed
    qed
  qed
qed

lemma IOHandler_read_line_ok:
  "handler io = IOHandler \<Longrightarrow> inp io = Returns s # rest \<Longrightarrow> strip s \<noteq> [] \<Longrightarrow>
     read_line io = (Inr (strip s), io\<lparr>inp := rest, trace := trace io @ [Got (strip s)]\<rparr>)"
  by (simp add: read_line_def IOHandler_read_line_def)

lemma echo_line_ok:
  "handler io = IOHandler \<Longrightarrow> inp io = Returns s # rest \<Longrightarrow> strip s \<noteq> [] \<Longrightarrow>
     echo_line io
       = (None, io\<lparr>inp := rest,
                    trace := trace io @ [Got (strip s), Put (strip s @ [CHR 0x0A])]\<rparr>)"
  by (simp add: echo_line_def IOHandler_read_line_ok write_line_def)

text \<open>
  C5. Constructing the \<open>JSONIO\<close> performs the handshake. On a channel whose next two lines
  \<open>s1\<close> and \<open>s2\<close> are not blank, it consumes exactly these two lines (the input left is
  what followed them) and adds to the trace, in this order, the read of \<open>s1\<close> stripped, the
  write of that same line followed by a newline, the read of \<open>s2\<close> stripped and the write of
  that same line followed by a newline, and nothing else. On the standalone simulator in its
  initial state the two lines are the version header and the opening bracket, and the
  simulator's counter has advanced by two. Whatever \<open>run\<close> reads and writes afterwards for
  the ticks comes after these four events.
\<close>
theorem C5_handshake:
  "(handler io = IOHandler \<and> inp io = Returns s1 # Returns s2 # rest
      \<and> strip s1 \<noteq> [] \<and> strip s2 \<noteq> []
    \<longrightarrow> JSONIO_init io
          = (None, io\<lparr>inp := rest,
                       trace := trace io @ [Got (strip s1), Put (strip s1 @ [CHR 0x0A]),
                                            Got (strip s2), Put (strip s2 @ [CHR 0x0A])]\<rparr>))
   \<and> (handler io = StandaloneIO \<and> standalone_n io = standalone_n0
    \<longrightarrow> JSONIO_init io
          = (None, io\<lparr>standalone_n := 1,
                       trace := trace io @ [Got (proto ! 0), Put (proto ! 0 @ [CHR 0x0A]),
                                            Got (proto ! 1), Put (proto ! 1 @ [CHR 0x0A])]\<rparr>))
   \<and> (JSONIO_init (eng_io self) = (None, io1) \<and> run self w = (r, io2)
    \<longrightarrow> (\<exists>t. trace io2 = trace io1 @ t))"
proof (intro conjI impI)
  assume a: "handler io = IOHandler \<and> inp io = Returns s1 # Returns s2 # rest
      \<and> strip s1 \<noteq> [] \<and> strip s2 \<noteq> []"
  let ?io1 = "io\<lparr>inp := Returns s2 # rest,
                    trace := trace io @ [Got (strip s1), Put (strip s1 @ [CHR 0x0A])]\<rparr>"
  from a have e1: "echo_line io = (None, ?io1)" by (simp add: echo_line_ok)
  have e2: "echo_line ?io1
      = (None, ?io1\<lparr>inp := rest,
            trace := trace ?io1 @ [Got (strip s2), Put (strip s2 @ [CHR 0x0A])]\<rparr>)"
    using a by (intro echo_line_ok) simp_all
  show "JSONIO_init io
          = (None, io\<lparr>inp := rest,
                       trace := trace io @ [Got (strip s1), Put (strip s1 @ [CHR 0x0A]),
                                            Got (strip s2), Put (strip s2 @ [CHR 0x0A])]\<rparr>)"
    by (simp add: JSONIO_init_def e1 e2)
next
  assume a: "handler io = StandaloneIO \<and> standalone_n io = standalone_n0"
  then show "JSONIO_init io
          = (None, io\<lparr>standalone_n := 1,
                       trace := trace io @ [Got (proto ! 0), Put (proto ! 0 @ [CHR 0x0A]),
                                            Got (proto ! 1), Put (proto ! 1 @ [CHR 0x0A])]\<rparr>)"
    by (simp add: JSONIO_init_def echo_line_def read_line_def StandaloneIO_read_line_def
        standalone_read_line_def standalone_n0_def py_index_def proto_def write_line_def)
next
  assume a: "JSONIO_init (eng_io self) = (None, io1) \<and> run self w = (r, io2)"
  then have "tick_loop (registry self w) io1 = (r, io2)"
    by (auto simp: run_def)
  then show "\<exists>t. trace io2 = trace io1 @ t" by (rule tick_loop_trace)
qed


theorem C5_handshake_witness:
  \<open>JSONIO_init (new_IOHandler
       [Returns (''{"version":1}'' @ [CHR 0x0A]), Returns (''['' @ [CHR 0x0A]), Returns ''[]''])
     = (None, (new_IOHandler
         [Returns (''{"version":1}'' @ [CHR 0x0A]), Returns (''['' @ [CHR 0x0A]), Returns ''[]''])
         \<lparr>inp := [Returns ''[]''],
          trace := [Got ''{"version":1}'', Put (''{"version":1}'' @ [CHR 0x0A]),
                    Got ''['', Put (''['' @ [CHR 0x0A])]\<rparr>)
   \<and> JSONIO_init (new_StandaloneIO 2)
     = (None, (new_StandaloneIO 2)
         \<lparr>standalone_n := 1,
          trace := [Got ''{"version": 1}'', Put (''{"version": 1}'' @ [CHR 0x0A]),
                    Got ''['', Put (''['' @ [CHR 0x0A])]\<rparr>)
   \<and> (\<exists>t. trace (snd (run (i3pystatus_init True 2 [])
                        \<lparr>heap = (\<lambda>r. mk (VStr ''A'') (VInt 0)), lists = (\<lambda>a. [0])\<rparr>))
          = [Got ''{"version": 1}'', Put (''{"version": 1}'' @ [CHR 0x0A]),
             Got ''['', Put (''['' @ [CHR 0x0A])] @ t)\<close>
proof -
  let ?io = \<open>new_IOHandler
       [Returns (''{"version":1}'' @ [CHR 0x0A]), Returns (''['' @ [CHR 0x0A]), Returns ''[]'']\<close>
  let ?e = "i3pystatus_init True 2 []"
  let ?w = "\<lparr>heap = (\<lambda>r. mk (VStr ''A'') (VInt 0)), lists = (\<lambda>a. [0])\<rparr>"
  have s1: \<open>strip (''{"version":1}'' @ [CHR 0x0A]) = ''{"version":1}''\<close>
    by (simp add: strip_def isspace_def)
  have s2: "strip (''['' @ [CHR 0x0A]) = ''[''"
    by (simp add: strip_def isspace_def)
  from C5_handshake [of ?io \<open>''{"version":1}'' @ [CHR 0x0A]\<close> "''['' @ [CHR 0x0A]" "[Returns ''[]'']"]
  have a: \<open>JSONIO_init ?io
     = (None, ?io\<lparr>inp := [Returns ''[]''],
          trace := [Got ''{"version":1}'', Put (''{"version":1}'' @ [CHR 0x0A]),
                    Got ''['', Put (''['' @ [CHR 0x0A])]\<rparr>)\<close>
    by (simp add: s1 [simplified] s2 [simplified] new_IOHandler_def)
  from C5_handshake [of "new_StandaloneIO 2"]
  have b: \<open>JSONIO_init (new_StandaloneIO 2)
     = (None, (new_StandaloneIO 2)
         \<lparr>standalone_n := 1,
          trace := [Got ''{"version": 1}'', Put (''{"version": 1}'' @ [CHR 0x0A]),
                    Got ''['', Put (''['' @ [CHR 0x0A])]\<rparr>)\<close>
    by (simp add: new_StandaloneIO_def proto_def)
  have io: "eng_io ?e = new_StandaloneIO 2" by (simp add: i3pystatus_init_def)
  have run: "run ?e ?w = (fst (run ?e ?w), snd (run ?e ?w))" by simp
  from C5_handshake [of _ _ _ _ ?e _ ?w] b [folded io] run
  have c: \<open>\<exists>t. trace (snd (run ?e ?w))
          = [Got ''{"version": 1}'', Put (''{"version": 1}'' @ [CHR 0x0A]),
             Got ''['', Put (''['' @ [CHR 0x0A])] @ t\<close>
    by (fastforce simp: new_StandaloneIO_def)
  from a b c show ?thesis by blast
qed
subsection \<open>End of stream\<close>

lemma IOHandler_read_line_EOF_iff:
  "fst (IOHandler_read_line io) = Inl EOFError \<longleftrightarrow>
     (inp io = [] \<or> (\<exists>rest. inp io = Interrupted # rest)
      \<or> (\<exists>s rest. inp io = Returns s # rest \<and> strip s = []))"
  by (auto simp: IOHandler_read_line_def split: list.splits readline.splits)

lemma read_next_line:
  "handler io = IOHandler \<Longrightarrow> inp io = Returns s # rest \<Longrightarrow> strip s \<noteq> [] \<Longrightarrow>
     read_next io = (Inr (Some (strip s)), io\<lparr>inp := rest, trace := trace io @ [Got (strip s)]\<rparr>)"
  by (simp add: read_next_def IOHandler_read_line_def)

lemma read_next_stop:
  "handler io = IOHandler \<Longrightarrow> fst (IOHandler_read_line io) = Inl EOFError \<Longrightarrow>
     fst (read_next io) = Inr None"
  by (auto simp: read_next_def split: prod.splits sum.splits)

lemma read_all_lines:
  assumes "handler io = IOHandler"
    and "inp io = map Returns ss @ rest"
    and "\<forall>s \<in> set ss. strip s \<noteq> []"
    and "fst (IOHandler_read_line (io\<lparr>inp := rest\<rparr>)) = Inl EOFError"
  shows "fst (read_all io) = Inr (map strip ss)"
  using assms
proof (induction ss arbitrary: io)
  case Nil
  then have "io\<lparr>inp := rest\<rparr> = io" by simp
  with Nil have "fst (read_next io) = Inr None" by (simp add: read_next_stop)
  then obtain io1 where "read_next io = (Inr None, io1)" by (cases "read_next io") simp
  then show ?case
    by (subst read_all.simps) simp
next
  case (Cons s ss)
  let ?io' = "io\<lparr>inp := map Returns ss @ rest, trace := trace io @ [Got (strip s)]\<rparr>"
  from Cons.prems have step: "read_next io = (Inr (Some (strip s)), ?io')"
    by (simp add: read_next_line)
  have "fst (read_all ?io') = Inr (map strip ss)"
  proof (rule Cons.IH)
    show "handler ?io' = IOHandler" using Cons.prems by simp
    show "inp ?io' = map Returns ss @ rest" by simp
    show "\<forall>s\<in>set ss. strip s \<noteq> []" using Cons.prems by simp
    show "fst (IOHandler_read_line (?io'\<lparr>inp := rest\<rparr>)) = Inl EOFError"
      using Cons.prems(4) by (simp add: IOHandler_read_line_EOF_iff)
  qed
  then obtain io2 where "read_all ?io' = (Inr (map strip ss), io2)"
    by (cases "read_all ?io'") simp
  with step show ?case
    by (subst read_all.simps) simp
qed

text \<open>
  C6. \<open>read_line\<close> of the line channel raises \<open>EOFError\<close> in exactly three cases: the
  stream is at its end (\<open>readline\<close> has nothing more, or returns the empty string),
  \<open>KeyboardInterrupt\<close> arrives during \<open>readline\<close>, or the line is empty once stripped.
  The generator \<open>read\<close> then ends without an exception: when the stream delivers the
  lines \<open>ss\<close>, none of them blank, and then one of the three cases, \<open>read\<close> yields the
  stripped lines \<open>ss\<close> and returns.
\<close>

theorem C6_end_of_stream:
  "(fst (IOHandler_read_line io) = Inl EOFError \<longleftrightarrow>
     (inp io = [] \<or> (\<exists>rest. inp io = Interrupted # rest)
      \<or> (\<exists>s rest. inp io = Returns s # rest \<and> strip s = [])))
   \<and> (handler io = IOHandler \<and> inp io = map Returns ss @ rest \<and> (\<forall>s \<in> set ss. strip s \<noteq> [])
        \<and> (rest = [] \<or> (\<exists>rest'. rest = Interrupted # rest')
             \<or> (\<exists>s rest'. rest = Returns s # rest' \<and> strip s = []))
       \<longrightarrow> fst (read_all io) = Inr (map strip ss))"
proof (intro conjI impI)
  show "fst (IOHandler_read_line io) = Inl EOFError \<longleftrightarrow>
     (inp io = [] \<or> (\<exists>rest. inp io = Interrupted # rest)
      \<or> (\<exists>s rest. inp io = Returns s # rest \<and> strip s = []))"
    by (rule IOHandler_read_line_EOF_iff)
next
  assume a: "handler io = IOHandler \<and> inp io = map Returns ss @ rest \<and> (\<forall>s \<in> set ss. strip s \<noteq> [])
        \<and> (rest = [] \<or> (\<exists>rest'. rest = Interrupted # rest')
             \<or> (\<exists>s rest'. rest = Returns s # rest' \<and> strip s = []))"
  then have "fst (IOHandler_read_line (io\<lparr>inp := rest\<rparr>)) = Inl EOFError"
    by (simp add: IOHandler_read_line_EOF_iff)
  with a show "fst (read_all io) = Inr (map strip ss)"
    by (intro read_all_lines) simp_all
qed


text \<open>
  The theorem at a stream that is interrupted at once, and at a stream of two lines
  followed by an interrupt.
\<close>

theorem C6_end_of_stream_witness:
  "fst (IOHandler_read_line (new_IOHandler [Interrupted, Returns ''c''])) = Inl EOFError
   \<and> fst (read_all (new_IOHandler
              [Returns [CHR ''a'', CHR 0x0A], Returns '' b '', Interrupted, Returns ''c'']))
       = Inr [''a'', ''b'']"
proof -
  have s1: "strip [CHR ''a'', CHR 0x0A] = ''a''" by (simp add: strip_def isspace_def)
  have s2: "strip '' b '' = ''b''" by (simp add: strip_def isspace_def)
  from C6_end_of_stream
    [of "new_IOHandler [Interrupted, Returns ''c'']"
        "[]" "[Interrupted, Returns ''c'']"]
  have a: "fst (IOHandler_read_line (new_IOHandler [Interrupted, Returns ''c''])) = Inl EOFError"
    by (simp add: new_IOHandler_def)
  from C6_end_of_stream
    [of "new_IOHandler [Returns [CHR ''a'', CHR 0x0A], Returns '' b '', Interrupted, Returns ''c'']"
        "[[CHR ''a'', CHR 0x0A], '' b '']" "[Interrupted, Returns ''c'']"]
  have b: "fst (read_all (new_IOHandler
              [Returns [CHR ''a'', CHR 0x0A], Returns '' b '', Interrupted, Returns ''c'']))
       = Inr [''a'', ''b'']"
    by (simp add: new_IOHandler_def s1 s2)
  from a b show ?thesis by simp
qed


subsection \<open>Construction of a module\<close>








subsection \<open>ClassFinder\<close>

lemma search_module_TypeError:
  "search_module f m = Inl (TypeError ''zip object is not subscriptable'')"
  by (simp add: search_module_def zip_getitem_def)

text \<open>
  Read with a list-returning \<open>zip\<close>, the two functions find the single eligible class
  and report two of them as ambiguous, but a Python module without an eligible class
  still ends in \<open>IndexError\<close>, not in the \<open>ConfigurationError\<close> of source line 205.
\<close>

lemma get_class_list_no_candidate:
  "getmembers m (predicate f) = [] \<Longrightarrow> get_class_list f m = Inl IndexError"
  by (simp add: get_class_list_def search_module_list_def)

lemma get_class_list_examples:
  "get_class_list \<lparr>baseclass = Module, exclude = [Module, IntervalModule, AsyncModule]\<rparr>
     \<lparr>mod_name = ''clock'',
        mod_members = [(''Clock'', Class (PyClass ''Clock'' [IntervalModule])),
                       (''IntervalModule'', Class IntervalModule), (''time'', Other)]\<rparr>
     = Inr (PyClass ''Clock'' [IntervalModule])"
  "get_class_list \<lparr>baseclass = Module, exclude = [Module, IntervalModule, AsyncModule]\<rparr>
     \<lparr>mod_name = ''two'',
        mod_members = [(''A'', Class (PyClass ''A'' [Module])),
                       (''B'', Class (PyClass ''B'' [AsyncModule]))]\<rparr>
     = Inl (ConfigurationError ''two'' None None
              (Some [PyClass ''A'' [Module], PyClass ''B'' [AsyncModule]]) False)"
  by (simp_all add: get_class_list_def search_module_list_def getmembers_def predicate_def
      the_classes_def Module_def AsyncModule_def IntervalModule_def py_index_def)

text \<open>
  C8 (the code misses the claim). \<open>get_class\<close> never reaches its two
  \<open>ConfigurationError\<close> branches: \<open>search_module\<close> subscripts the iterator that \<open>zip\<close>
  returns, which raises \<open>TypeError\<close> for every Python module. For the finder of an
  engine and a Python module without an eligible class, \<open>get_class\<close> raises
  \<open>TypeError\<close>, which is no \<open>ConfigurationError\<close>.
\<close>

theorem C8_get_class_raises_TypeError:
  "getmembers \<lparr>mod_name = ''empty'', mod_members = [(''IntervalModule'', Class IntervalModule), (''time'', Other)]\<rparr>
       (predicate (finder (i3pystatus_init False 0 []))) = []
   \<and> get_class (finder (i3pystatus_init False 0 []))
         \<lparr>mod_name = ''empty'', mod_members = [(''IntervalModule'', Class IntervalModule), (''time'', Other)]\<rparr>
       = Inl (TypeError ''zip object is not subscriptable'')
   \<and> \<not> is_ConfigurationError (TypeError ''zip object is not subscriptable'')
   \<and> get_class f m = Inl (TypeError ''zip object is not subscriptable'')"
  by (simp add: get_class_def search_module_TypeError getmembers_def predicate_def
      i3pystatus_init_def Module_def AsyncModule_def IntervalModule_def)

subsection \<open>The standalone simulator\<close>

lemma standalone_read_line_late:
  "2 \<le> n \<Longrightarrow> standalone_read_line n = (Inr '',[]'', n + 1)"
  by (simp add: standalone_read_line_def py_index_def proto_def Let_def)

lemma standalone_reads_late:
  "2 \<le> n \<Longrightarrow> standalone_reads k n = replicate k (Inr '',[]'')"
  by (induction k arbitrary: n) (simp_all add: standalone_read_line_late)

text \<open>
  C4. A fresh standalone simulator returns \<open>{"version": 1}\<close>, then \<open>[\<close>, then \<open>[]\<close>,
  and \<open>,[]\<close> on each of the \<open>k\<close> reads that follow, for every \<open>k\<close>; no read fails.
\<close>

theorem C4_standalone_sequence:
  \<open>standalone_reads (3 + k) standalone_n0 =
     [Inr ''{"version": 1}'', Inr ''['', Inr ''[]''] @ replicate k (Inr '',[]'')\<close>
proof -
  have three: "3 + k = Suc (Suc (Suc k))" by simp
  have r0: \<open>standalone_read_line (- 1) = (Inr ''{"version": 1}'', 0)\<close>
    by (simp add: standalone_read_line_def py_index_def proto_def Let_def)
  have r1: "standalone_read_line 0 = (Inr ''['', 1)"
    by (simp add: standalone_read_line_def py_index_def proto_def Let_def)
  have r2: "standalone_read_line 1 = (Inr ''[]'', 2)"
    by (simp add: standalone_read_line_def py_index_def proto_def Let_def)
  have late: "standalone_reads k 2 = replicate k (Inr '',[]'')"
    by (rule standalone_reads_late) simp
  show ?thesis
    unfolding three standalone_n0_def
    by (simp add: r0 r1 r2 late)
qed
subsection \<open>Registration\<close>

text \<open>
  C9 (as amended). Registering a module instance together with further positional
  arguments (beyond the position) or keyword arguments raises \<open>ValueError\<close> with the
  message that additional arguments are invalid, and leaves the registry and the
  module objects as they were.
\<close>

theorem C9_additional_arguments:
  "args \<noteq> [] \<or> kwargs \<noteq> [] \<Longrightarrow>
     register self (Instance r) pos args kwargs w
       = (Some (ValueError ''Additional arguments are invalid if 'module' is already an object''), w)"
  by (simp add: register_def make_instance_def)

text \<open>
  The theorem at a registration that passes a settings dictionary after the position.
\<close>

theorem C9_additional_arguments_witness:
  "[VDict [(''format'', VStr ''%H'')]] \<noteq> []
   \<and> register (i3pystatus_init False 0 []) (Instance 0) (VInt 0) [VDict [(''format'', VStr ''%H'')]] []
        \<lparr>heap = (\<lambda>r. mk VNone (VInt 0)), lists = (\<lambda>a. [3])\<rparr>
      = (Some (ValueError ''Additional arguments are invalid if 'module' is already an object''),
         \<lparr>heap = (\<lambda>r. mk VNone (VInt 0)), lists = (\<lambda>a. [3])\<rparr>)"
  using C9_additional_arguments
    [of "[VDict [(''format'', VStr ''%H'')]]" "[]" "i3pystatus_init False 0 []" 0 "VInt 0"
        "\<lparr>heap = (\<lambda>r. mk VNone (VInt 0)), lists = (\<lambda>a. [3])\<rparr>"]
  by simp

text \<open>
  C9 as stated fails on the kind of the error: the exception is a \<open>ValueError\<close>, not a
  \<open>ConfigurationError\<close>.
\<close>

theorem C9_counterexample:
  "fst (register (i3pystatus_init False 0 []) (Instance 0) (VInt 0) [] [(''format'', VStr ''%H'')]
          \<lparr>heap = (\<lambda>r. mk VNone (VInt 0)), lists = (\<lambda>a. [])\<rparr>)
     = Some (ValueError ''Additional arguments are invalid if 'module' is already an object'')
   \<and> \<not> is_ConfigurationError
         (ValueError ''Additional arguments are invalid if 'module' is already an object'')"
  by (simp add: register_def make_instance_def)


end
